theory Spec2Isabelle
  imports Complex_Main "HOL-Library.Word"
begin

section \<open>JavaScript numbers\<close>

text \<open>
  The overlay geometry is computed on JavaScript numbers, that is, in binary64. A number
  is either a finite double or one of the three non-finite values. Each arithmetic
  operation returns the exact result rounded to the nearest double, ties to even, with
  gradual underflow below \<open>2^-1022\<close> and overflow to infinity from \<open>2^1024\<close> on. The
  sign of zero is not modelled: every divisor that can be zero in the program is a
  video dimension, an unsigned integer, so a zero divisor is always the positive zero.
  Canvas and video dimensions are unsigned 32-bit integers, which binary64 holds
  exactly.
\<close>

datatype number = Fin real | PosInf | NegInf | NaN

text \<open>Rounding to the nearest integer, ties to the even one.\<close>

definition round_half_even :: "real \<Rightarrow> int" where
  "round_half_even t =
     (let f = \<lfloor>t\<rfloor>
      in if t - of_int f < 1 / 2 then f
         else if 1 / 2 < t - of_int f then f + 1
         else if even f then f else f + 1)"

text \<open>
  The binary exponent of a number: \<open>e\<close> with \<open>2^e \<le> |x| < 2^(e+1)\<close>, found by halving
  or doubling, held at \<open>-1022\<close> for the subnormal numbers and at \<open>1024\<close> for those that
  overflow. The doubles of that binade are the multiples of the quantum \<open>2^(e-52)\<close>.
\<close>

fun expo_up :: "nat \<Rightarrow> real \<Rightarrow> int" where
  "expo_up 0 x = 0"
| "expo_up (Suc n) x = (if x < 2 then 0 else expo_up n (x / 2) + 1)"

fun expo_down :: "nat \<Rightarrow> real \<Rightarrow> int" where
  "expo_down 0 x = 0"
| "expo_down (Suc n) x = (if 1 \<le> x then 0 else expo_down n (2 * x) - 1)"

definition expo :: "real \<Rightarrow> int" where
  "expo x = (if 1 \<le> \<bar>x\<bar> then expo_up 1024 \<bar>x\<bar> else expo_down 1022 \<bar>x\<bar>)"

definition quantum :: "real \<Rightarrow> real" where
  "quantum x = 2 powi (expo x - 52)"

definition round_val :: "real \<Rightarrow> real" where
  "round_val x = quantum x * of_int (round_half_even (x / quantum x))"

definition round64 :: "real \<Rightarrow> number" where
  "round64 x =
     (let v = round_val x
      in if 2 ^ 1024 \<le> \<bar>v\<bar> then (if 0 < v then PosInf else NegInf) else Fin v)"

text \<open>A real number that is a double: a multiple of the quantum of its binade.\<close>

definition on_grid :: "real \<Rightarrow> bool" where
  "on_grid d = (\<exists>k e. d = of_int k * 2 powi (e - 52) \<and> expo d \<le> e)"

fun signed_inf :: "real \<Rightarrow> number" where
  "signed_inf r = (if r = 0 then NaN else if 0 < r then PosInf else NegInf)"

fun js_mul :: "number \<Rightarrow> number \<Rightarrow> number" where
  "js_mul (Fin a) (Fin b) = round64 (a * b)"
| "js_mul (Fin a) PosInf = signed_inf a"
| "js_mul (Fin a) NegInf = signed_inf (- a)"
| "js_mul PosInf (Fin b) = signed_inf b"
| "js_mul NegInf (Fin b) = signed_inf (- b)"
| "js_mul PosInf PosInf = PosInf"
| "js_mul PosInf NegInf = NegInf"
| "js_mul NegInf PosInf = NegInf"
| "js_mul NegInf NegInf = PosInf"
| "js_mul NaN _ = NaN"
| "js_mul _ NaN = NaN"

fun js_div :: "number \<Rightarrow> number \<Rightarrow> number" where
  "js_div (Fin a) (Fin b) = (if b = 0 then signed_inf a else round64 (a / b))"
| "js_div (Fin a) PosInf = Fin 0"
| "js_div (Fin a) NegInf = Fin 0"
| "js_div PosInf (Fin b) = (if 0 \<le> b then PosInf else NegInf)"
| "js_div NegInf (Fin b) = (if 0 \<le> b then NegInf else PosInf)"
| "js_div PosInf PosInf = NaN"
| "js_div PosInf NegInf = NaN"
| "js_div NegInf PosInf = NaN"
| "js_div NegInf NegInf = NaN"
| "js_div NaN _ = NaN"
| "js_div _ NaN = NaN"

fun js_sub :: "number \<Rightarrow> number \<Rightarrow> number" where
  "js_sub (Fin a) (Fin b) = round64 (a - b)"
| "js_sub (Fin a) PosInf = NegInf"
| "js_sub (Fin a) NegInf = PosInf"
| "js_sub PosInf (Fin b) = PosInf"
| "js_sub NegInf (Fin b) = NegInf"
| "js_sub PosInf PosInf = NaN"
| "js_sub PosInf NegInf = PosInf"
| "js_sub NegInf PosInf = NegInf"
| "js_sub NegInf NegInf = NaN"
| "js_sub NaN _ = NaN"
| "js_sub _ NaN = NaN"

text \<open>The comparison \<open>a <= b\<close>, which is exact: false as soon as one side is NaN.\<close>

fun js_le :: "number \<Rightarrow> number \<Rightarrow> bool" where
  "js_le (Fin a) (Fin b) = (a \<le> b)"
| "js_le (Fin a) PosInf = True"
| "js_le (Fin a) NegInf = False"
| "js_le PosInf (Fin b) = False"
| "js_le NegInf (Fin b) = True"
| "js_le PosInf PosInf = True"
| "js_le PosInf NegInf = False"
| "js_le NegInf PosInf = True"
| "js_le NegInf NegInf = True"
| "js_le NaN _ = False"
| "js_le _ NaN = False"

section \<open>Host objects and the effects of host calls\<close>

text \<open>
  The program is glue over the browser's capture, record, draw and audio interfaces.
  Each host call the code makes is recorded, in program order, in a log of effects; the
  values the host hands back (granted streams, a canvas context, video metadata, the
  playback status of a video, recorded chunks) are arguments of the operations. A host
  call is taken to return normally unless the code itself handles its failure (a
  rejected capture request, a missing canvas context).
\<close>

type_synonym track = nat
type_synonym chunk = nat

datatype MediaStream = MediaStream (getTracks: "track list")

datatype Blob = Blob (parts: "chunk list") (blob_type: string)

text \<open>\<open>URL.createObjectURL\<close> hands out a fresh, non-empty string for the blob.\<close>

datatype object_url = ObjectURL Blob

datatype recorder_id = ScreenRecorder | WebcamRecorder | CombinedRecorder | FinalRecorder

text \<open>
  What a recorder records: a captured stream, the stream captured from the canvas, or
  the stream built from the canvas's video tracks and the audio tracks of the audio
  destination node.
\<close>

datatype recorded_stream =
    Captured MediaStream
  | CanvasStream
  | CanvasVideoWithDestinationAudio

datatype MediaRecorder =
  MediaRecorder (rec_id: recorder_id) (rec_stream: recorded_stream) (mimeType: "string option")

datatype video = ScreenVideo | WebcamVideo

datatype video_element = VideoElement (srcObject: "MediaStream option")

datatype audio_node =
    MediaStreamSource MediaStream
  | MediaElementSource video
  | Analyser
  | MediaStreamDestination

datatype AnalyserNode = AnalyserNode MediaStream

text \<open>
  What a pending animation-frame callback is: the voice check of the page, or the
  \<open>drawFrame\<close> closure of one \<open>combineVideos\<close> call with the constants it captured
  (canvas width and height, and the overlay rectangle \<open>x, y, width, height\<close>).
\<close>

datatype callback =
    CheckAudio
  | DrawFrame nat nat number number number number

datatype effect =
    GetDisplayMedia "(nat \<times> nat) option"
  | GetUserMedia "(nat \<times> nat) option"
  | Toast string string "string option"
  | ConsoleError string
  | NewMediaRecorder MediaRecorder
  | RecorderStart recorder_id "nat option"
  | RecorderPause recorder_id
  | RecorderResume recorder_id
  | RecorderStop recorder_id
  | TrackStop track
  | CreateElement string
  | CreateObjectURL Blob
  | Play video
  | DrawImage video number number number number
  | AudioConnect audio_node audio_node
  | RequestAnimationFrame nat callback
  | CancelAnimationFrame nat

text \<open>
  The part of the browser the components act on: the log, and the list of
  animation-frame callbacks. \<open>requestAnimationFrame\<close> increments the document's
  callback identifier and returns it, so a handle is never zero;
  \<open>cancelAnimationFrame\<close> removes the callback with that handle, if it is pending.
\<close>

record world =
  effects :: "effect list"
  pendingFrames :: "(nat \<times> callback) list"
  lastFrameId :: nat

definition emit :: "effect \<Rightarrow> 'a world_scheme \<Rightarrow> 'a world_scheme" where
  "emit e w = w\<lparr>effects := effects w @ [e]\<rparr>"

definition requestAnimationFrame :: "callback \<Rightarrow> 'a world_scheme \<Rightarrow> nat \<times> 'a world_scheme" where
  "requestAnimationFrame cb w =
     (let handle = Suc (lastFrameId w)
      in (handle,
          emit (RequestAnimationFrame handle cb)
            (w\<lparr>pendingFrames := pendingFrames w @ [(handle, cb)], lastFrameId := handle\<rparr>)))"

definition cancelAnimationFrame :: "nat \<Rightarrow> 'a world_scheme \<Rightarrow> 'a world_scheme" where
  "cancelAnimationFrame handle w =
     emit (CancelAnimationFrame handle)
       (w\<lparr>pendingFrames := filter (\<lambda>p. fst p \<noteq> handle) (pendingFrames w)\<rparr>)"

text \<open>\<open>stream.getTracks().forEach((track) => track.stop())\<close>\<close>

fun stopTracks :: "track list \<Rightarrow> 'a world_scheme \<Rightarrow> 'a world_scheme" where
  "stopTracks [] w = w"
| "stopTracks (t # ts) w = stopTracks ts (emit (TrackStop t) w)"

section \<open>The page component (src/app/page.tsx)\<close>

datatype VideoQuality = Q480p | Q720p | Q1080p | Q1440p | Q2160p

fun videoQualities :: "VideoQuality \<Rightarrow> nat \<times> nat" where
  "videoQualities Q480p = (854, 480)"
| "videoQualities Q720p = (1280, 720)"
| "videoQualities Q1080p = (1920, 1080)"
| "videoQualities Q1440p = (2560, 1440)"
| "videoQualities Q2160p = (3840, 2160)"

datatype RecordingState = idle | recording | paused | processing

text \<open>
  Which handler \<open>combinedRecorder.onstop\<close> currently holds: the one that encodes the
  combined chunks (assigned first), or \<open>() => finalRecorder.stop()\<close> (assigned last).
\<close>

datatype stop_handler = EncodeCombined | StopFinal

text \<open>
  The state of the component: the \<open>useState\<close> values, the \<open>useRef\<close> cells, and the
  variables captured by the handlers that \<open>startRecording\<close> and \<open>combineVideos\<close>
  install (the chunk arrays and the current \<open>onstop\<close> of the combined recorder).
\<close>

record component = world +
  recordingState :: RecordingState
  combinedRecordingUrl :: "object_url option"
  videoQuality :: VideoQuality
  webcamPosition :: "real \<times> real"
  webcamSize :: real
  webcamBorderRadius :: real
  showPreview :: bool
  isVoiceDetected :: bool
  screenVideoRef :: "video_element option"
  webcamVideoRef :: "video_element option"
  screenStreamRef :: "MediaStream option"
  webcamStreamRef :: "MediaStream option"
  screenRecorderRef :: "MediaRecorder option"
  webcamRecorderRef :: "MediaRecorder option"
  audioAnalyserRef :: "AnalyserNode option"
  animationFrameRef :: "nat option"
  screenChunks :: "chunk list"
  webcamChunks :: "chunk list"
  combinedChunks :: "chunk list"
  finalChunks :: "chunk list"
  combinedRecorder_onstop_handler :: "stop_handler option"

definition initial :: component where
  "initial =
     \<lparr> effects = [], pendingFrames = [], lastFrameId = 0,
       recordingState = idle, combinedRecordingUrl = None, videoQuality = Q1080p,
       webcamPosition = (5, 80), webcamSize = 17, webcamBorderRadius = 25,
       showPreview = False, isVoiceDetected = False,
       screenVideoRef = None, webcamVideoRef = None,
       screenStreamRef = None, webcamStreamRef = None,
       screenRecorderRef = None, webcamRecorderRef = None,
       audioAnalyserRef = None, animationFrameRef = None,
       screenChunks = [], webcamChunks = [], combinedChunks = [], finalChunks = [],
       combinedRecorder_onstop_handler = None \<rparr>"

text \<open>\<open>if (ref.current) ref.current.srcObject = stream\<close>\<close>

definition set_srcObject :: "MediaStream \<Rightarrow> video_element option \<Rightarrow> video_element option" where
  "set_srcObject stream el = (case el of None \<Rightarrow> None | Some _ \<Rightarrow> Some (VideoElement (Some stream)))"

text \<open>The \<open>catch\<close> block of \<open>requestPermissions\<close>.\<close>

definition permission_denied :: "'a world_scheme \<Rightarrow> 'a world_scheme" where
  "permission_denied s =
     emit (Toast ''Permission denied''
             ''Please allow access to your screen and webcam to start recording.''
             (Some ''destructive''))
       (emit (ConsoleError ''Error requesting permissions:'') s)"

text \<open>
  \<open>requestPermissions\<close>: the first two arguments are what the two capture requests
  resolve to, \<open>None\<close> for a rejected request; the third says whether the audio analysis
  that the same \<open>try\<close> block then sets up on the webcam stream (a new audio context, a
  stream source, an analyser, their connection) completes or throws. The webcam is only
  asked for once the screen has been granted, and the references are only written once
  both are. A throw of the audio set-up reaches the same \<open>catch\<close> as a rejected request,
  with the stream references and the preview sources already written, and before the
  analyser reference is.
\<close>

definition requestPermissions ::
  "MediaStream option \<Rightarrow> MediaStream option \<Rightarrow> bool \<Rightarrow> component \<Rightarrow> bool \<times> component" where
  "requestPermissions displayMedia userMedia audioSetup s =
     (let s1 = emit (GetDisplayMedia (Some (videoQualities (videoQuality s)))) s
      in case displayMedia of
           None \<Rightarrow> (False, permission_denied s1)
         | Some screenStream \<Rightarrow>
             (let s2 = emit (GetUserMedia (Some (videoQualities (videoQuality s)))) s1
              in case userMedia of
                   None \<Rightarrow> (False, permission_denied s2)
                 | Some webcamStream \<Rightarrow>
                     (let s3 = s2\<lparr>screenStreamRef := Some screenStream,
                                   webcamStreamRef := Some webcamStream,
                                   screenVideoRef := set_srcObject screenStream (screenVideoRef s2),
                                   webcamVideoRef := set_srcObject webcamStream (webcamVideoRef s2)\<rparr>
                      in if \<not> audioSetup then (False, permission_denied s3)
                         else
                           (let s4 = emit (AudioConnect (MediaStreamSource webcamStream) Analyser) s3;
                                s5 = s4\<lparr>audioAnalyserRef := Some (AnalyserNode webcamStream)\<rparr>
                            in (True,
                                emit (Toast ''Permissions granted''
                                        ''Screen and webcam access have been allowed.'' None) s5)))))"

text \<open>
  \<open>checkAudio\<close>, the body of the voice-detection loop: \<open>data\<close> is what
  \<open>getByteFrequencyData\<close> wrote. \<open>reduce\<close> without an initial value throws on an empty
  array, before anything is set or scheduled.
\<close>

definition checkAudio :: "8 word list \<Rightarrow> component \<Rightarrow> component" where
  "checkAudio data s =
     (if data = [] then s
      else
        (let average = real (sum_list (map unat data)) / real (length data);
             s1 = s\<lparr>isVoiceDetected := (10 < average)\<rparr>;
             (handle, s2) = requestAnimationFrame CheckAudio s1
         in s2\<lparr>animationFrameRef := Some handle\<rparr>))"

definition detectVoice :: "8 word list \<Rightarrow> component \<Rightarrow> component" where
  "detectVoice data s = (if audioAnalyserRef s = None then s else checkAudio data s)"

text \<open>
  \<open>startRecording\<close>. The \<open>!\<close> on the two stream references is an assertion of the type
  checker only: on a null reference the constructor of the recorder throws, and nothing
  after it runs. After a grant both references are set.
\<close>

definition startRecording ::
  "MediaStream option \<Rightarrow> MediaStream option \<Rightarrow> bool \<Rightarrow> 8 word list \<Rightarrow> component
     \<Rightarrow> component" where
  "startRecording displayMedia userMedia audioSetup data s =
     (let (permissionsGranted, s1) = requestPermissions displayMedia userMedia audioSetup s
      in if \<not> permissionsGranted then s1
         else
           (case (screenStreamRef s1, webcamStreamRef s1) of
              (Some screenStream, Some webcamStream) \<Rightarrow>
                (let screenRecorder =
                       MediaRecorder ScreenRecorder (Captured screenStream)
                         (Some ''video/webm; codecs=vp9'');
                     webcamRecorder =
                       MediaRecorder WebcamRecorder (Captured webcamStream)
                         (Some ''video/webm; codecs=vp9'');
                     s2 = emit (NewMediaRecorder screenRecorder) s1;
                     s3 = emit (NewMediaRecorder webcamRecorder) s2;
                     s4 = s3\<lparr>screenRecorderRef := Some screenRecorder,
                              webcamRecorderRef := Some webcamRecorder,
                              screenChunks := [], webcamChunks := []\<rparr>;
                     s5 = emit (RecorderStart ScreenRecorder (Some 1000)) s4;
                     s6 = emit (RecorderStart WebcamRecorder (Some 1000)) s5;
                     s7 = s6\<lparr>recordingState := recording\<rparr>
                 in detectVoice data s7)
            | _ \<Rightarrow> s1))"

definition pauseRecording :: "component \<Rightarrow> component" where
  "pauseRecording s =
     (if screenRecorderRef s \<noteq> None \<and> webcamRecorderRef s \<noteq> None
      then (emit (RecorderPause WebcamRecorder) (emit (RecorderPause ScreenRecorder) s))
             \<lparr>recordingState := paused\<rparr>
      else s)"

definition resumeRecording :: "component \<Rightarrow> component" where
  "resumeRecording s =
     (if screenRecorderRef s \<noteq> None \<and> webcamRecorderRef s \<noteq> None
      then (emit (RecorderResume WebcamRecorder) (emit (RecorderResume ScreenRecorder) s))
             \<lparr>recordingState := recording\<rparr>
      else s)"

text \<open>\<open>if (streamRef.current) streamRef.current.getTracks().forEach(...)\<close>\<close>

definition stop_stream :: "MediaStream option \<Rightarrow> 'a world_scheme \<Rightarrow> 'a world_scheme" where
  "stop_stream streamRef w = (case streamRef of None \<Rightarrow> w | Some stream \<Rightarrow> stopTracks (getTracks stream) w)"

text \<open>
  \<open>if (animationFrameRef.current) cancelAnimationFrame(animationFrameRef.current)\<close>:
  the test is on the truth value of the handle, so \<open>null\<close> and \<open>0\<close> both skip the call.
\<close>

definition cancel_frame :: "nat option \<Rightarrow> 'a world_scheme \<Rightarrow> 'a world_scheme" where
  "cancel_frame frameRef w =
     (case frameRef of
        None \<Rightarrow> w
      | Some handle \<Rightarrow> if handle = 0 then w else cancelAnimationFrame handle w)"

definition stopRecording :: "component \<Rightarrow> component" where
  "stopRecording s =
     (if screenRecorderRef s \<noteq> None \<and> webcamRecorderRef s \<noteq> None
      then
        (let s1 = emit (RecorderStop ScreenRecorder) s;
             s2 = emit (RecorderStop WebcamRecorder) s1;
             s3 = stop_stream (screenStreamRef s2) s2;
             s4 = stop_stream (webcamStreamRef s3) s3;
             s5 = cancel_frame (animationFrameRef s4) s4
         in emit (Toast ''Recording stopped'' ''Preparing final video...'' None) s5)
      else s)"

text \<open>The cleanup that the mount effect returns, run when the component unmounts.\<close>

definition cleanup :: "component \<Rightarrow> component" where
  "cleanup s =
     (let s1 = stop_stream (screenStreamRef s) s;
          s2 = stop_stream (webcamStreamRef s1) s1
      in cancel_frame (animationFrameRef s2) s2)"

subsection \<open>Compositing\<close>

text \<open>
  The overlay rectangle, as \<open>combineVideos\<close> computes it from the canvas size, the size
  and position percentages and the dimensions of the webcam video (the same four
  assignments stand in src/app/page.tsx and in src/unnamed/part_000).
\<close>

record rect =
  webcamX :: number
  webcamY :: number
  webcamWidth :: number
  webcamHeight :: number

definition webcam_rect :: "nat \<Rightarrow> nat \<Rightarrow> real \<Rightarrow> real \<times> real \<Rightarrow> nat \<Rightarrow> nat \<Rightarrow> rect" where
  "webcam_rect width height percent pos videoWidth videoHeight =
     (let ww = js_mul (js_div (Fin percent) (Fin 100)) (Fin (real width));
          wh = js_mul (js_div ww (Fin (real videoWidth))) (Fin (real videoHeight));
          wx = js_mul (js_div (Fin (fst pos)) (Fin 100)) (js_sub (Fin (real width)) ww);
          wy = js_mul (js_div (Fin (snd pos)) (Fin 100)) (js_sub (Fin (real height)) wh)
      in \<lparr> webcamX = wx, webcamY = wy, webcamWidth = ww, webcamHeight = wh \<rparr>)"

text \<open>
  \<open>drawFrame\<close>, the closure that \<open>combineVideos\<close> defines (the same body in the three
  files, over the constants each one captured). The last argument before the state is
  what the screen video reports when the frame is drawn: \<open>(paused, ended)\<close>.
\<close>

definition drawFrame ::
  "nat \<Rightarrow> nat \<Rightarrow> number \<Rightarrow> number \<Rightarrow> number \<Rightarrow> number \<Rightarrow> bool \<times> bool
     \<Rightarrow> 'a world_scheme \<Rightarrow> 'a world_scheme" where
  "drawFrame width height wx wy ww wh status w =
     (let w1 = emit (DrawImage ScreenVideo (Fin 0) (Fin 0) (Fin (real width)) (Fin (real height))) w;
          w2 = emit (DrawImage WebcamVideo wx wy ww wh) w1
      in if \<not> fst status \<and> \<not> snd status
         then snd (requestAnimationFrame (DrawFrame width height wx wy ww wh) w2)
         else emit (RecorderStop CombinedRecorder) w2)"

text \<open>
  The browser's side of the loop. At an animation frame it takes a pending callback off
  its list and runs it; \<open>animation_frame\<close> does so for the first pending \<open>drawFrame\<close>,
  and is \<open>None\<close> when there is none. \<open>animation_frames\<close> runs one frame for each status
  of the screen video in the list, for as long as a \<open>drawFrame\<close> is pending: the loop
  goes on only because \<open>drawFrame\<close> registers itself again.
\<close>

fun is_draw :: "nat \<times> callback \<Rightarrow> bool" where
  "is_draw (_, DrawFrame _ _ _ _ _ _) = True"
| "is_draw (_, CheckAudio) = False"

fun run_draw :: "callback \<Rightarrow> bool \<times> bool \<Rightarrow> 'a world_scheme \<Rightarrow> 'a world_scheme" where
  "run_draw (DrawFrame width height wx wy ww wh) status w = drawFrame width height wx wy ww wh status w"
| "run_draw CheckAudio status w = w"

definition animation_frame :: "bool \<times> bool \<Rightarrow> 'a world_scheme \<Rightarrow> 'a world_scheme option" where
  "animation_frame status w =
     (case find is_draw (pendingFrames w) of
        None \<Rightarrow> None
      | Some (handle, cb) \<Rightarrow>
          Some (run_draw cb status (w\<lparr>pendingFrames := remove1 (handle, cb) (pendingFrames w)\<rparr>)))"

fun animation_frames :: "(bool \<times> bool) list \<Rightarrow> 'a world_scheme \<Rightarrow> 'a world_scheme" where
  "animation_frames [] w = w"
| "animation_frames (status # rest) w =
     (case animation_frame status w of
        None \<Rightarrow> w
      | Some w' \<Rightarrow> animation_frames rest w')"

text \<open>
  \<open>combineVideos\<close> of the page. The first three arguments are the values of
  \<open>videoQuality\<close>, \<open>webcamPosition\<close> and \<open>webcamSize\<close> that the callback captured (its
  dependency list); then the two blobs; then what the host answers: the dimensions of
  the screen video and of the webcam video once both have loaded their metadata (\<open>None\<close>
  when that never happens, and the call stays suspended at its \<open>await\<close>), whether
  \<open>getContext\<close> returns a context, and the status of the screen video at the first
  \<open>drawFrame()\<close>.
\<close>

definition combineVideos ::
  "VideoQuality \<Rightarrow> real \<times> real \<Rightarrow> real \<Rightarrow> Blob \<Rightarrow> Blob
     \<Rightarrow> ((nat \<times> nat) \<times> (nat \<times> nat)) option \<Rightarrow> bool \<Rightarrow> bool \<times> bool
     \<Rightarrow> component \<Rightarrow> component" where
  "combineVideos quality pos percent screenBlob webcamBlob loadedmetadata ctx status s =
     (let s1 = s\<lparr>recordingState := processing\<rparr>;
          s2 = emit (CreateElement ''video'') s1;
          s3 = emit (CreateElement ''video'') s2;
          s4 = emit (CreateObjectURL screenBlob) s3;
          s5 = emit (CreateObjectURL webcamBlob) s4
      in case loadedmetadata of
           None \<Rightarrow> s5
         | Some (screenDims, (videoWidth, videoHeight)) \<Rightarrow>
             (let s6 = emit (CreateElement ''canvas'') s5
              in if \<not> ctx then emit (ConsoleError ''Unable to create canvas context'') s6
                 else
                   (let (width, height) = videoQualities quality;
                        r = webcam_rect width height percent pos videoWidth videoHeight;
                        combinedRecorder =
                          MediaRecorder CombinedRecorder CanvasStream (Some ''video/webm; codecs=vp9'');
                        s7 = emit (NewMediaRecorder combinedRecorder) s6;
                        s8 = s7\<lparr>combinedChunks := [],
                                 combinedRecorder_onstop_handler := Some EncodeCombined\<rparr>;
                        s9 = emit (RecorderStart CombinedRecorder None) s8;
                        s10 = emit (Play ScreenVideo) s9;
                        s11 = emit (Play WebcamVideo) s10;
                        s12 = drawFrame width height (webcamX r) (webcamY r) (webcamWidth r)
                                (webcamHeight r) status s11;
                        s13 = emit (AudioConnect (MediaElementSource ScreenVideo) MediaStreamDestination) s12;
                        s14 = emit (AudioConnect (MediaElementSource WebcamVideo) MediaStreamDestination) s13;
                        finalRecorder =
                          MediaRecorder FinalRecorder CanvasVideoWithDestinationAudio
                            (Some ''video/webm; codecs=vp9'');
                        s15 = emit (NewMediaRecorder finalRecorder) s14;
                        s16 = s15\<lparr>finalChunks := []\<rparr>;
                        s17 = emit (RecorderStart FinalRecorder None) s16
                    in s17\<lparr>combinedRecorder_onstop_handler := Some StopFinal\<rparr>)))"

text \<open>The handlers that \<open>startRecording\<close> and \<open>combineVideos\<close> install.\<close>

definition screenRecorder_ondataavailable :: "chunk \<Rightarrow> component \<Rightarrow> component" where
  "screenRecorder_ondataavailable e s = s\<lparr>screenChunks := screenChunks s @ [e]\<rparr>"

definition webcamRecorder_ondataavailable :: "chunk \<Rightarrow> component \<Rightarrow> component" where
  "webcamRecorder_ondataavailable e s = s\<lparr>webcamChunks := webcamChunks s @ [e]\<rparr>"

definition screenRecorder_onstop ::
  "VideoQuality \<Rightarrow> real \<times> real \<Rightarrow> real
     \<Rightarrow> ((nat \<times> nat) \<times> (nat \<times> nat)) option \<Rightarrow> bool \<Rightarrow> bool \<times> bool
     \<Rightarrow> component \<Rightarrow> component" where
  "screenRecorder_onstop quality pos percent loadedmetadata ctx status s =
     combineVideos quality pos percent
       (Blob (screenChunks s) ''video/webm'') (Blob (webcamChunks s) ''video/webm'')
       loadedmetadata ctx status s"

definition combinedRecorder_ondataavailable :: "chunk \<Rightarrow> component \<Rightarrow> component" where
  "combinedRecorder_ondataavailable e s = s\<lparr>combinedChunks := combinedChunks s @ [e]\<rparr>"

definition finalRecorder_ondataavailable :: "chunk \<Rightarrow> component \<Rightarrow> component" where
  "finalRecorder_ondataavailable e s = s\<lparr>finalChunks := finalChunks s @ [e]\<rparr>"

text \<open>
  The \<open>stop\<close> event of the combined recorder runs whichever handler its \<open>onstop\<close> holds
  when the event is delivered.
\<close>

definition combinedRecorder_onstop :: "component \<Rightarrow> component" where
  "combinedRecorder_onstop s =
     (case combinedRecorder_onstop_handler s of
        None \<Rightarrow> s
      | Some EncodeCombined \<Rightarrow>
          (let combinedBlob = Blob (combinedChunks s) ''video/webm''
           in (emit (CreateObjectURL combinedBlob) s)
                \<lparr>combinedRecordingUrl := Some (ObjectURL combinedBlob), recordingState := idle\<rparr>)
      | Some StopFinal \<Rightarrow> emit (RecorderStop FinalRecorder) s)"

definition finalRecorder_onstop :: "component \<Rightarrow> component" where
  "finalRecorder_onstop s =
     (let finalBlob = Blob (finalChunks s) ''video/webm''
      in (emit (CreateObjectURL finalBlob) s)
           \<lparr>combinedRecordingUrl := Some (ObjectURL finalBlob), recordingState := idle\<rparr>)"

text \<open>
  What the page offers: the first button is Start when idle, Pause when recording,
  Resume when paused and absent while processing; the Stop button is disabled when
  idle or processing.
\<close>

datatype button = Start | Pause | Resume | Stop

fun offered :: "RecordingState \<Rightarrow> button \<Rightarrow> bool" where
  "offered st Start = (st = idle)"
| "offered st Pause = (st = recording)"
| "offered st Resume = (st = paused)"
| "offered st Stop = (\<not> (st = idle \<or> st = processing))"

section \<open>The first recorder component (src/components/screen-recorder.tsx)\<close>

text \<open>
  This component has no processing state, keeps the URLs of the two live recordings in
  its state, and composites from them when the recording is stopped.
\<close>

datatype sr_RecordingState = sr_idle | sr_recording | sr_paused

record screen_recorder = world +
  sr_recordingState :: sr_RecordingState
  sr_screenRecordingUrl :: "object_url option"
  sr_webcamRecordingUrl :: "object_url option"
  sr_combinedRecordingUrl :: "object_url option"
  sr_screenVideoRef :: "video_element option"
  sr_webcamVideoRef :: "video_element option"
  sr_screenStreamRef :: "MediaStream option"
  sr_webcamStreamRef :: "MediaStream option"
  sr_screenRecorderRef :: "MediaRecorder option"
  sr_webcamRecorderRef :: "MediaRecorder option"
  sr_screenChunks :: "chunk list"
  sr_webcamChunks :: "chunk list"
  sr_combinedChunks :: "chunk list"

definition sr_initial :: screen_recorder where
  "sr_initial =
     \<lparr> effects = [], pendingFrames = [], lastFrameId = 0,
       sr_recordingState = sr_idle, sr_screenRecordingUrl = None,
       sr_webcamRecordingUrl = None, sr_combinedRecordingUrl = None,
       sr_screenVideoRef = Some (VideoElement None), sr_webcamVideoRef = Some (VideoElement None),
       sr_screenStreamRef = None, sr_webcamStreamRef = None,
       sr_screenRecorderRef = None, sr_webcamRecorderRef = None,
       sr_screenChunks = [], sr_webcamChunks = [], sr_combinedChunks = [] \<rparr>"

definition sr_requestPermissions ::
  "MediaStream option \<Rightarrow> MediaStream option \<Rightarrow> screen_recorder \<Rightarrow> bool \<times> screen_recorder" where
  "sr_requestPermissions displayMedia userMedia s =
     (let s1 = emit (GetDisplayMedia None) s
      in case displayMedia of
           None \<Rightarrow> (False, permission_denied s1)
         | Some screenStream \<Rightarrow>
             (let s2 = emit (GetUserMedia None) s1
              in case userMedia of
                   None \<Rightarrow> (False, permission_denied s2)
                 | Some webcamStream \<Rightarrow>
                     (let s3 = s2\<lparr>sr_screenStreamRef := Some screenStream,
                                   sr_webcamStreamRef := Some webcamStream,
                                   sr_screenVideoRef := set_srcObject screenStream (sr_screenVideoRef s2),
                                   sr_webcamVideoRef := set_srcObject webcamStream (sr_webcamVideoRef s2)\<rparr>
                      in (True,
                          emit (Toast ''Permissions granted''
                                  ''Screen and webcam access have been allowed.'' None) s3))))"

definition sr_startRecording ::
  "MediaStream option \<Rightarrow> MediaStream option \<Rightarrow> screen_recorder \<Rightarrow> screen_recorder" where
  "sr_startRecording displayMedia userMedia s =
     (let (permissionsGranted, s1) = sr_requestPermissions displayMedia userMedia s
      in if \<not> permissionsGranted then s1
         else
           (case (sr_screenStreamRef s1, sr_webcamStreamRef s1) of
              (Some screenStream, Some webcamStream) \<Rightarrow>
                (let screenRecorder = MediaRecorder ScreenRecorder (Captured screenStream) None;
                     webcamRecorder = MediaRecorder WebcamRecorder (Captured webcamStream) None;
                     s2 = emit (NewMediaRecorder screenRecorder) s1;
                     s3 = emit (NewMediaRecorder webcamRecorder) s2;
                     s4 = s3\<lparr>sr_screenRecorderRef := Some screenRecorder,
                              sr_webcamRecorderRef := Some webcamRecorder,
                              sr_screenChunks := [], sr_webcamChunks := []\<rparr>;
                     s5 = emit (RecorderStart ScreenRecorder (Some 1000)) s4;
                     s6 = emit (RecorderStart WebcamRecorder (Some 1000)) s5
                 in s6\<lparr>sr_recordingState := sr_recording\<rparr>)
            | _ \<Rightarrow> s1))"

definition sr_screenRecorder_ondataavailable :: "chunk \<Rightarrow> screen_recorder \<Rightarrow> screen_recorder" where
  "sr_screenRecorder_ondataavailable e s =
     (let s1 = s\<lparr>sr_screenChunks := sr_screenChunks s @ [e]\<rparr>;
          screenBlob = Blob (sr_screenChunks s1) ''video/webm''
      in (emit (CreateObjectURL screenBlob) s1)\<lparr>sr_screenRecordingUrl := Some (ObjectURL screenBlob)\<rparr>)"

definition sr_webcamRecorder_ondataavailable :: "chunk \<Rightarrow> screen_recorder \<Rightarrow> screen_recorder" where
  "sr_webcamRecorder_ondataavailable e s =
     (let s1 = s\<lparr>sr_webcamChunks := sr_webcamChunks s @ [e]\<rparr>;
          webcamBlob = Blob (sr_webcamChunks s1) ''video/webm''
      in (emit (CreateObjectURL webcamBlob) s1)\<lparr>sr_webcamRecordingUrl := Some (ObjectURL webcamBlob)\<rparr>)"

definition sr_pauseRecording :: "screen_recorder \<Rightarrow> screen_recorder" where
  "sr_pauseRecording s =
     (if sr_screenRecorderRef s \<noteq> None \<and> sr_webcamRecorderRef s \<noteq> None
      then (emit (RecorderPause WebcamRecorder) (emit (RecorderPause ScreenRecorder) s))
             \<lparr>sr_recordingState := sr_paused\<rparr>
      else s)"

definition sr_resumeRecording :: "screen_recorder \<Rightarrow> screen_recorder" where
  "sr_resumeRecording s =
     (if sr_screenRecorderRef s \<noteq> None \<and> sr_webcamRecorderRef s \<noteq> None
      then (emit (RecorderResume WebcamRecorder) (emit (RecorderResume ScreenRecorder) s))
             \<lparr>sr_recordingState := sr_recording\<rparr>
      else s)"

text \<open>
  \<open>combineVideos\<close> of this component: the canvas takes the size of the screen video, and
  the webcam is drawn as a square of a quarter of the smaller side, ten pixels from the
  bottom right corner. The arguments are the host's answers, as for the page.
\<close>

definition sr_combineVideos ::
  "((nat \<times> nat) \<times> (nat \<times> nat)) option \<Rightarrow> bool \<Rightarrow> bool \<times> bool
     \<Rightarrow> screen_recorder \<Rightarrow> screen_recorder" where
  "sr_combineVideos loadedmetadata ctx status s =
     (if sr_screenRecordingUrl s = None \<or> sr_webcamRecordingUrl s = None then s
      else
        (let s1 = emit (CreateElement ''video'') s;
             s2 = emit (CreateElement ''video'') s1
         in case loadedmetadata of
              None \<Rightarrow> s2
            | Some ((canvas_width, canvas_height), webcamDims) \<Rightarrow>
                (let s3 = emit (CreateElement ''canvas'') s2
                 in if \<not> ctx then emit (ConsoleError ''Unable to create canvas context'') s3
                    else
                      (let webcam_size =
                             js_div (Fin (real (min canvas_width canvas_height))) (Fin 4);
                           wx = js_sub (js_sub (Fin (real canvas_width)) webcam_size) (Fin 10);
                           wy = js_sub (js_sub (Fin (real canvas_height)) webcam_size) (Fin 10);
                           combinedRecorder =
                             MediaRecorder CombinedRecorder CanvasStream (Some ''video/webm'');
                           s4 = emit (NewMediaRecorder combinedRecorder) s3;
                           s5 = s4\<lparr>sr_combinedChunks := []\<rparr>;
                           s6 = emit (RecorderStart CombinedRecorder None) s5;
                           s7 = emit (Play ScreenVideo) s6;
                           s8 = emit (Play WebcamVideo) s7
                       in drawFrame canvas_width canvas_height wx wy webcam_size webcam_size
                            status s8))))"

definition sr_combinedRecorder_ondataavailable :: "chunk \<Rightarrow> screen_recorder \<Rightarrow> screen_recorder" where
  "sr_combinedRecorder_ondataavailable e s = s\<lparr>sr_combinedChunks := sr_combinedChunks s @ [e]\<rparr>"

definition sr_combinedRecorder_onstop :: "screen_recorder \<Rightarrow> screen_recorder" where
  "sr_combinedRecorder_onstop s =
     (let combinedBlob = Blob (sr_combinedChunks s) ''video/webm''
      in (emit (CreateObjectURL combinedBlob) s)\<lparr>sr_combinedRecordingUrl := Some (ObjectURL combinedBlob)\<rparr>)"

definition sr_stopRecording ::
  "((nat \<times> nat) \<times> (nat \<times> nat)) option \<Rightarrow> bool \<Rightarrow> bool \<times> bool
     \<Rightarrow> screen_recorder \<Rightarrow> screen_recorder" where
  "sr_stopRecording loadedmetadata ctx status s =
     (if sr_screenRecorderRef s \<noteq> None \<and> sr_webcamRecorderRef s \<noteq> None
      then
        (let s1 = emit (RecorderStop ScreenRecorder) s;
             s2 = emit (RecorderStop WebcamRecorder) s1;
             s3 = s2\<lparr>sr_recordingState := sr_idle\<rparr>;
             s4 = stop_stream (sr_screenStreamRef s3) s3;
             s5 = stop_stream (sr_webcamStreamRef s4) s4;
             s6 = emit (Toast ''Recording stopped''
                          ''Combining screen and webcam recordings...'' None) s5
         in sr_combineVideos loadedmetadata ctx status s6)
      else s)"

definition sr_cleanup :: "screen_recorder \<Rightarrow> screen_recorder" where
  "sr_cleanup s =
     (let s1 = stop_stream (sr_screenStreamRef s) s
      in stop_stream (sr_webcamStreamRef s1) s1)"

section \<open>The second recorder component (src/unnamed/part\_000)\<close>

text \<open>
  This file is the first component with the quality table and the percentage geometry
  of the page added (the table is the one of the page, \<open>videoQualities\<close>). Its recorder
  handling is that of the first component and is not repeated here: what follows is the
  state that \<open>combineVideos\<close> and the stop handler it installs read and write. Its
  \<open>combineVideos\<close> reads the recording URLs, the quality and the overlay settings from
  the state.
\<close>

record part0 = world +
  p0_recordingState :: sr_RecordingState
  p0_screenRecordingUrl :: "object_url option"
  p0_webcamRecordingUrl :: "object_url option"
  p0_combinedRecordingUrl :: "object_url option"
  p0_videoQuality :: VideoQuality
  p0_webcamPosition :: "real \<times> real"
  p0_webcamSize :: real
  p0_screenStreamRef :: "MediaStream option"
  p0_webcamStreamRef :: "MediaStream option"
  p0_screenRecorderRef :: "MediaRecorder option"
  p0_webcamRecorderRef :: "MediaRecorder option"
  p0_combinedChunks :: "chunk list"

definition p0_initial :: part0 where
  "p0_initial =
     \<lparr> effects = [], pendingFrames = [], lastFrameId = 0,
       p0_recordingState = sr_idle, p0_screenRecordingUrl = None,
       p0_webcamRecordingUrl = None, p0_combinedRecordingUrl = None,
       p0_videoQuality = Q1080p, p0_webcamPosition = (10, 10), p0_webcamSize = 25,
       p0_screenStreamRef = None, p0_webcamStreamRef = None,
       p0_screenRecorderRef = None, p0_webcamRecorderRef = None,
       p0_combinedChunks = [] \<rparr>"

definition p0_combineVideos ::
  "((nat \<times> nat) \<times> (nat \<times> nat)) option \<Rightarrow> bool \<Rightarrow> bool \<times> bool \<Rightarrow> part0 \<Rightarrow> part0" where
  "p0_combineVideos loadedmetadata ctx status s =
     (if p0_screenRecordingUrl s = None \<or> p0_webcamRecordingUrl s = None then s
      else
        (let s1 = emit (CreateElement ''video'') s;
             s2 = emit (CreateElement ''video'') s1
         in case loadedmetadata of
              None \<Rightarrow> s2
            | Some (screenDims, (videoWidth, videoHeight)) \<Rightarrow>
                (let s3 = emit (CreateElement ''canvas'') s2
                 in if \<not> ctx then emit (ConsoleError ''Unable to create canvas context'') s3
                    else
                      (let (width, height) = videoQualities (p0_videoQuality s3);
                           r = webcam_rect width height (p0_webcamSize s3) (p0_webcamPosition s3)
                                 videoWidth videoHeight;
                           combinedRecorder =
                             MediaRecorder CombinedRecorder CanvasStream
                               (Some ''video/webm; codecs=vp9'');
                           s4 = emit (NewMediaRecorder combinedRecorder) s3;
                           s5 = s4\<lparr>p0_combinedChunks := []\<rparr>;
                           s6 = emit (RecorderStart CombinedRecorder None) s5;
                           s7 = emit (Play ScreenVideo) s6;
                           s8 = emit (Play WebcamVideo) s7
                       in drawFrame width height (webcamX r) (webcamY r) (webcamWidth r)
                            (webcamHeight r) status s8))))"

definition p0_combinedRecorder_onstop :: "part0 \<Rightarrow> part0" where
  "p0_combinedRecorder_onstop s =
     (let combinedBlob = Blob (p0_combinedChunks s) ''video/webm''
      in (emit (CreateObjectURL combinedBlob) s)\<lparr>p0_combinedRecordingUrl := Some (ObjectURL combinedBlob)\<rparr>)"

section \<open>Notions the properties are stated with\<close>

text \<open>The buttons of the page and the handlers they are bound to.\<close>

fun click ::
  "button \<Rightarrow> MediaStream option \<Rightarrow> MediaStream option \<Rightarrow> bool \<Rightarrow> 8 word list \<Rightarrow> component
     \<Rightarrow> component" where
  "click Start displayMedia userMedia audioSetup data s =
     startRecording displayMedia userMedia audioSetup data s"
| "click Pause displayMedia userMedia audioSetup data s = pauseRecording s"
| "click Resume displayMedia userMedia audioSetup data s = resumeRecording s"
| "click Stop displayMedia userMedia audioSetup data s = stopRecording s"

text \<open>
  The cycle as the specification draws it,
  idle \<open>\<rightarrow>\<close> recording \<open>\<rightarrow>\<close> paused \<open>\<rightarrow>\<close> processing \<open>\<rightarrow>\<close> idle,
  and the arcs the page really has.
\<close>

fun cycle_arc :: "RecordingState \<Rightarrow> RecordingState \<Rightarrow> bool" where
  "cycle_arc idle recording = True"
| "cycle_arc recording paused = True"
| "cycle_arc paused processing = True"
| "cycle_arc processing idle = True"
| "cycle_arc _ _ = False"

fun lifecycle_arc :: "RecordingState \<Rightarrow> RecordingState \<Rightarrow> bool" where
  "lifecycle_arc idle recording = True"
| "lifecycle_arc recording paused = True"
| "lifecycle_arc paused recording = True"
| "lifecycle_arc recording processing = True"
| "lifecycle_arc paused processing = True"
| "lifecycle_arc processing idle = True"
| "lifecycle_arc _ _ = False"

text \<open>The rectangles of the webcam frames drawn, read off a log.\<close>

fun webcam_draw :: "effect \<Rightarrow> rect list" where
  "webcam_draw (DrawImage WebcamVideo dx dy dw dh) =
     [\<lparr> webcamX = dx, webcamY = dy, webcamWidth = dw, webcamHeight = dh \<rparr>]"
| "webcam_draw _ = []"

definition webcam_draws :: "effect list \<Rightarrow> rect list" where
  "webcam_draws es = concat (map webcam_draw es)"

text \<open>
  The linear map in the words of the specification, in exact arithmetic: the width is
  \<open>(s/100) w\<close>, the height is the width scaled by the height-to-width ratio of the
  webcam video, and the corner is \<open>((x/100) (w - width), (y/100) (h - height))\<close>.
\<close>

definition linear_overlay :: "nat \<Rightarrow> nat \<Rightarrow> real \<Rightarrow> real \<Rightarrow> real \<Rightarrow> nat \<Rightarrow> nat \<Rightarrow> rect" where
  "linear_overlay w h s x y videoWidth videoHeight =
     \<lparr> webcamX = Fin (x / 100 * (real w - s / 100 * real w)),
       webcamY = Fin (y / 100 * (real h - s / 100 * real w * (real videoHeight / real videoWidth))),
       webcamWidth = Fin (s / 100 * real w),
       webcamHeight = Fin (s / 100 * real w * (real videoHeight / real videoWidth)) \<rparr>"

text \<open>
  The same map with every operation rounded to the nearest double, in the order in
  which the source writes the operations.
\<close>

definition rounded_overlay :: "nat \<Rightarrow> nat \<Rightarrow> real \<Rightarrow> real \<Rightarrow> real \<Rightarrow> nat \<Rightarrow> nat \<Rightarrow> rect" where
  "rounded_overlay w h s x y videoWidth videoHeight =
     (let overlay_width = round_val (round_val (s / 100) * real w);
          overlay_height =
            round_val (round_val (overlay_width / real videoWidth) * real videoHeight)
      in \<lparr> webcamX = Fin (round_val (round_val (x / 100) * round_val (real w - overlay_width))),
           webcamY = Fin (round_val (round_val (y / 100) * round_val (real h - overlay_height))),
           webcamWidth = Fin overlay_width,
           webcamHeight = Fin overlay_height \<rparr>)"

text \<open>
  A rectangle lies within the canvas of width \<open>w\<close> and height \<open>h\<close>: its four numbers are
  finite, the corner is not negative, and corner plus extent, added exactly, does not
  pass the canvas. The second notion allows the excess \<open>w / 2^53\<close> and \<open>h / 2^53\<close>, the
  rounding error of one subtraction.
\<close>

fun inside_canvas :: "rect \<Rightarrow> nat \<Rightarrow> nat \<Rightarrow> bool" where
  "inside_canvas r w h =
     (case (webcamX r, webcamY r, webcamWidth r, webcamHeight r) of
        (Fin x, Fin y, Fin ww, Fin wh) \<Rightarrow>
          0 \<le> x \<and> x + ww \<le> real w \<and> 0 \<le> y \<and> y + wh \<le> real h
      | _ \<Rightarrow> False)"

fun inside_canvas_rounded :: "rect \<Rightarrow> nat \<Rightarrow> nat \<Rightarrow> bool" where
  "inside_canvas_rounded r w h =
     (case (webcamX r, webcamY r, webcamWidth r, webcamHeight r) of
        (Fin x, Fin y, Fin ww, Fin wh) \<Rightarrow>
          0 \<le> x \<and> x + ww \<le> real w + real w / 2 ^ 53 \<and>
          0 \<le> y \<and> y + wh \<le> real h + real h / 2 ^ 53
      | _ \<Rightarrow> False)"

text \<open>The calls that construct or start a recorder, and the notifications.\<close>

fun recorder_call :: "effect \<Rightarrow> bool" where
  "recorder_call (NewMediaRecorder _) = True"
| "recorder_call (RecorderStart _ _) = True"
| "recorder_call _ = False"

fun is_toast :: "effect \<Rightarrow> bool" where
  "is_toast (Toast _ _ _) = True"
| "is_toast _ = False"

text \<open>
  The trace of the compositing loop in the words of the specification: each iteration
  draws the screen frame over the whole canvas and then the webcam frame in its
  rectangle; the loop repeats while the screen video is neither paused nor ended, and
  where it stops it stops the combined recorder. The last argument is the handle of
  the latest animation-frame request.
\<close>

fun playing :: "bool \<times> bool \<Rightarrow> bool" where
  "playing (is_paused, is_ended) = (\<not> is_paused \<and> \<not> is_ended)"

fun loop_trace ::
  "nat \<Rightarrow> nat \<Rightarrow> number \<Rightarrow> number \<Rightarrow> number \<Rightarrow> number \<Rightarrow> (bool \<times> bool) list \<Rightarrow> nat \<Rightarrow> effect list" where
  "loop_trace W H dx dy dw dh [] n = []"
| "loop_trace W H dx dy dw dh (status # rest) n =
     [DrawImage ScreenVideo (Fin 0) (Fin 0) (Fin (real W)) (Fin (real H)),
      DrawImage WebcamVideo dx dy dw dh] @
     (if playing status
      then RequestAnimationFrame (Suc n) (DrawFrame W H dx dy dw dh) #
           loop_trace W H dx dy dw dh rest (Suc n)
      else [RecorderStop CombinedRecorder])"

text \<open>The audio nodes connected into the destination node, read off a log.\<close>

fun destination_input :: "effect \<Rightarrow> audio_node list" where
  "destination_input (AudioConnect src MediaStreamDestination) = [src]"
| "destination_input _ = []"

definition destination_inputs :: "effect list \<Rightarrow> audio_node list" where
  "destination_inputs es = concat (map destination_input es)"

text \<open>The tracks of a stream reference, none when the reference is null.\<close>

definition tracks_of :: "MediaStream option \<Rightarrow> track list" where
  "tracks_of streamRef = (case streamRef of None \<Rightarrow> [] | Some stream \<Rightarrow> getTracks stream)"

text \<open>
  Runs of the components used as concrete inputs: a recording started with both captures
  granted; the same recording stopped, with one chunk delivered by each recorder; the
  page while it composites (the stop event of the screen recorder has been delivered and
  the screen video plays); the first recorder component likewise.
\<close>

definition started :: component where
  "started =
     startRecording (Some (MediaStream [1, 2])) (Some (MediaStream [3, 4])) True [200, 3] initial"

definition stopped :: component where
  "stopped =
     webcamRecorder_ondataavailable 2 (screenRecorder_ondataavailable 1 (stopRecording started))"

definition compositing :: component where
  "compositing =
     screenRecorder_onstop Q1080p (5, 80) 17 (Some ((1920, 1080), (640, 480))) True
       (False, False) stopped"

definition sr_started :: screen_recorder where
  "sr_started =
     sr_startRecording (Some (MediaStream [1, 2])) (Some (MediaStream [3, 4])) sr_initial"

definition sr_compositing :: screen_recorder where
  "sr_compositing =
     sr_stopRecording (Some ((1920, 1080), (640, 480))) True (False, False)
       (sr_webcamRecorder_ondataavailable 2 (sr_screenRecorder_ondataavailable 1 sr_started))"

section \<open>Properties\<close>

subsection \<open>Binary64 rounding\<close>

lemma expo_up_numeral:
  "expo_up (numeral k) x = (if x < 2 then 0 else expo_up (pred_numeral k) (x / 2) + 1)"
  by (simp add: numeral_eq_Suc)

lemma expo_down_numeral:
  "expo_down (numeral k) x = (if 1 \<le> x then 0 else expo_down (pred_numeral k) (2 * x) - 1)"
  by (simp add: numeral_eq_Suc)

lemmas f64_eval = round64_def round_val_def quantum_def expo_def expo_up_numeral expo_down_numeral
  round_half_even_def Let_def power_int_def power_divide


lemma rhe_le: "t \<le> of_int m \<Longrightarrow> round_half_even t \<le> m"
  unfolding round_half_even_def Let_def
  by (auto simp: le_floor_iff floor_le_iff)

lemma rhe_ge: "of_int m \<le> t \<Longrightarrow> m \<le> round_half_even t"
  unfolding round_half_even_def Let_def
  by (auto simp: le_floor_iff) linarith+

lemma rhe_err: "\<bar>of_int (round_half_even t) - t\<bar> \<le> 1 / 2"
  unfolding round_half_even_def Let_def
  by (auto simp: abs_le_iff)


lemma expo_up_nonneg: "0 \<le> expo_up n x"
  by (induction n arbitrary: x) auto

lemma expo_up_lower: "1 \<le> x \<Longrightarrow> 2 powi (expo_up n x) \<le> x"
proof (induction n arbitrary: x)
  case 0
  then show ?case by simp
next
  case (Suc n)
  show ?case
  proof (cases "x < 2")
    case True
    with Suc.prems show ?thesis by simp
  next
    case False
    then have "1 \<le> x / 2" by simp
    from Suc.IH [OF this] have "2 powi (expo_up n (x / 2)) * 2 \<le> x" by simp
    with False show ?thesis by (simp add: power_int_add)
  qed
qed

lemma expo_up_upper: "x < 2 ^ Suc n \<Longrightarrow> x < 2 powi (expo_up n x + 1)"
proof (induction n arbitrary: x)
  case 0
  then show ?case by simp
next
  case (Suc n)
  show ?case
  proof (cases "x < 2")
    case True
    then show ?thesis by simp
  next
    case False
    from Suc.prems have "x / 2 < 2 ^ Suc n" by simp
    from Suc.IH [OF this] have "x < 2 powi (expo_up n (x / 2) + 1) * 2" by simp
    with False show ?thesis by (simp add: power_int_add)
  qed
qed

lemma expo_up_mono: "x \<le> y \<Longrightarrow> expo_up n x \<le> expo_up n y"
proof (induction n arbitrary: x y)
  case 0
  then show ?case by simp
next
  case (Suc n)
  have "0 \<le> expo_up n (y / 2)" by (rule expo_up_nonneg)
  moreover have "expo_up n (x / 2) \<le> expo_up n (y / 2)" using Suc.prems by (intro Suc.IH) simp
  ultimately show ?case using Suc.prems by auto
qed

lemma expo_down_le0: "expo_down n x \<le> 0"
proof (induction n arbitrary: x)
  case 0
  then show ?case by simp
next
  case (Suc n)
  from Suc.IH [of "2 * x"] show ?case by auto
qed

lemma expo_down_ge: "- int n \<le> expo_down n x"
proof (induction n arbitrary: x)
  case 0
  then show ?case by simp
next
  case (Suc n)
  from Suc.IH [of "2 * x"] show ?case by auto
qed

lemma expo_down_upper: "x < 2 \<Longrightarrow> x < 2 powi (expo_down n x + 1)"
proof (induction n arbitrary: x)
  case 0
  then show ?case by simp
next
  case (Suc n)
  show ?case
  proof (cases "1 \<le> x")
    case True
    with Suc.prems show ?thesis by simp
  next
    case False
    then have "2 * x < 2" by simp
    from Suc.IH [OF this] have "2 * x < 2 powi (expo_down n (2 * x) + 1)" .
    also have "\<dots> = 2 * 2 powi (expo_down n (2 * x))" by (simp add: power_int_add)
    finally show ?thesis using False by simp
  qed
qed

lemma expo_down_lower: "2 powi (- int n) \<le> x \<Longrightarrow> 2 powi (expo_down n x) \<le> x"
proof (induction n arbitrary: x)
  case 0
  then show ?case by simp
next
  case (Suc n)
  show ?case
  proof (cases "1 \<le> x")
    case True
    then show ?thesis by simp
  next
    case False
    have "(2::real) powi (- int n) = 2 * 2 powi (- int (Suc n))"
      by (simp add: power_int_diff power_int_minus field_simps)
    with Suc.prems have "2 powi (- int n) \<le> 2 * x" by simp
    from Suc.IH [OF this] have "2 powi (expo_down n (2 * x)) \<le> 2 * x" .
    then have "2 powi (expo_down n (2 * x) - 1) \<le> x" by (simp add: power_int_diff)
    with False show ?thesis by simp
  qed
qed

lemma expo_down_small: "0 \<le> x \<Longrightarrow> x < 2 powi (- int n) \<Longrightarrow> expo_down n x = - int n"
proof (induction n arbitrary: x)
  case 0
  then show ?case by simp
next
  case (Suc n)
  have e: "(2::real) powi (- int n) = 2 * 2 powi (- int (Suc n))"
    by (simp add: power_int_diff power_int_minus field_simps)
  have "(2::real) powi (- int (Suc n)) \<le> 2 powi 0" by (intro power_int_increasing) simp_all
  then have "(2::real) powi (- int (Suc n)) \<le> 1" by simp
  with Suc.prems have x1: "\<not> 1 \<le> x" by simp
  from Suc.prems e have "2 * x < 2 powi (- int n)" "0 \<le> 2 * x" by simp_all
  from Suc.IH [OF this(2,1)] x1 show ?case by simp
qed

lemma expo_down_mono: "x \<le> y \<Longrightarrow> expo_down n x \<le> expo_down n y"
proof (induction n arbitrary: x y)
  case 0
  then show ?case by simp
next
  case (Suc n)
  have "expo_down n (2 * x) \<le> 0" by (rule expo_down_le0)
  moreover have "expo_down n (2 * x) \<le> expo_down n (2 * y)" using Suc.prems by (intro Suc.IH) simp
  ultimately show ?case using Suc.prems by auto
qed

lemma expo_ge: "- 1022 \<le> expo x"
  using expo_up_nonneg [of 1024 "\<bar>x\<bar>"] expo_down_ge [of 1022 "\<bar>x\<bar>"]
  by (auto simp: expo_def)

lemma expo_mono: "\<bar>x\<bar> \<le> \<bar>y\<bar> \<Longrightarrow> expo x \<le> expo y"
  using expo_up_mono [of "\<bar>x\<bar>" "\<bar>y\<bar>" 1024] expo_down_mono [of "\<bar>x\<bar>" "\<bar>y\<bar>" 1022]
    expo_down_le0 [of 1022 "\<bar>x\<bar>"] expo_up_nonneg [of 1024 "\<bar>y\<bar>"]
  by (auto simp: expo_def)

lemma expo_upper: "\<bar>x\<bar> < 2 ^ 1025 \<Longrightarrow> \<bar>x\<bar> < 2 powi (expo x + 1)"
  using expo_up_upper [of "\<bar>x\<bar>" 1024] expo_down_upper [of "\<bar>x\<bar>" 1022]
  by (auto simp: expo_def)

lemma expo_lower: "2 powi (- 1022) \<le> \<bar>x\<bar> \<Longrightarrow> 2 powi (expo x) \<le> \<bar>x\<bar>"
  using expo_up_lower [of "\<bar>x\<bar>" 1024] expo_down_lower [of 1022 "\<bar>x\<bar>"]
  by (auto simp: expo_def)

lemma expo_small: "\<bar>x\<bar> < 2 powi (- 1022) \<Longrightarrow> expo x = - 1022"
proof -
  assume a: "\<bar>x\<bar> < 2 powi (- 1022)"
  have "(2::real) powi (- 1022) \<le> 1" by (simp add: power_int_minus field_simps)
  with a have "\<not> 1 \<le> \<bar>x\<bar>" by simp
  moreover have "expo_down 1022 \<bar>x\<bar> = - int 1022"
    using a by (intro expo_down_small) simp_all
  ultimately show ?thesis by (simp add: expo_def)
qed

lemma expo_le:
  assumes "\<bar>v\<bar> < 2 powi (e + 1)" "- 1022 \<le> e"
  shows "expo v \<le> e"
proof (cases "\<bar>v\<bar> < 2 powi (- 1022)")
  case True
  then show ?thesis using expo_small assms(2) by simp
next
  case False
  then have "2 powi (expo v) \<le> \<bar>v\<bar>" by (intro expo_lower) simp
  with assms(1) have "(2::real) powi (expo v) < 2 powi (e + 1)" by simp
  have "expo v < e + 1"
  proof (rule ccontr)
    assume "\<not> expo v < e + 1"
    then have "(2::real) powi (e + 1) \<le> 2 powi (expo v)" by (intro power_int_increasing) simp_all
    with \<open>(2::real) powi (expo v) < 2 powi (e + 1)\<close> show False by simp
  qed
  then show ?thesis by simp
qed


lemma pow2_split: "(2::real) powi (a + b) = 2 powi a * 2 powi b"
  by (rule power_int_add) simp

lemma quantum_pos: "0 < quantum x"
  by (simp add: quantum_def)

lemma round_val_nonneg: "0 \<le> x \<Longrightarrow> 0 \<le> round_val x"
proof -
  assume "0 \<le> x"
  then have "of_int 0 \<le> x / quantum x" using quantum_pos [of x] by simp
  then have "0 \<le> round_half_even (x / quantum x)" by (rule rhe_ge)
  then show ?thesis using quantum_pos [of x] by (simp add: round_val_def)
qed

lemma round_val_abs_bound:
  assumes g: "on_grid d" and t: "\<bar>t\<bar> \<le> d"
  shows "\<bar>round_val t\<bar> \<le> d"
proof -
  from g obtain k e where d: "d = of_int k * 2 powi (e - 52)" and e: "expo d \<le> e"
    by (auto simp: on_grid_def)
  from t have "\<bar>t\<bar> \<le> \<bar>d\<bar>" by simp
  then have "expo t \<le> expo d" by (rule expo_mono)
  with e have j: "0 \<le> e - expo t" by simp
  define m where "m = k * 2 ^ nat (e - expo t)"
  have "(2::real) powi (e - 52) = 2 powi (e - expo t) * 2 powi (expo t - 52)"
    by (simp flip: power_int_add)
  also have "(2::real) powi (e - expo t) = 2 ^ nat (e - expo t)"
    using j by (simp add: power_int_def)
  finally have dm: "d = of_int m * quantum t"
    by (simp add: d m_def quantum_def)
  have q: "0 < quantum t" by (rule quantum_pos)
  from t have "t \<le> d" "- d \<le> t" by simp_all
  then have "t / quantum t \<le> of_int m" "of_int (- m) \<le> t / quantum t"
    using q by (simp_all add: dm field_simps)
  then have "round_half_even (t / quantum t) \<le> m" "- m \<le> round_half_even (t / quantum t)"
    by (auto intro: rhe_le rhe_ge)
  then have "\<bar>round_half_even (t / quantum t)\<bar> \<le> m" by simp
  then have "\<bar>of_int (round_half_even (t / quantum t)) :: real\<bar> \<le> of_int m"
    by (metis of_int_abs of_int_le_iff)
  then have "quantum t * \<bar>of_int (round_half_even (t / quantum t))\<bar> \<le> quantum t * of_int m"
    using q by simp
  then show ?thesis using q by (simp add: round_val_def abs_mult dm mult.commute)
qed

lemma round_val_on_grid:
  assumes "\<bar>x\<bar> < 2 ^ 1025"
  shows "on_grid (round_val x)"
proof -
  define q where "q = quantum x"
  define k where "k = round_half_even (x / q)"
  have q: "0 < q" by (simp add: q_def quantum_pos)
  have rv: "round_val x = of_int k * q" by (simp add: round_val_def k_def q_def)
  have top: "(2::real) powi (expo x + 1) = 2 ^ 53 * q"
    using pow2_split [of 53 "expo x - 52"] by (simp add: q_def quantum_def add.commute)
  from expo_upper [OF assms] top have "\<bar>x\<bar> < 2 ^ 53 * q" by simp
  then have xq: "x / q \<le> 2 ^ 53" "- (2 ^ 53) \<le> x / q"
    using q by (simp_all add: field_simps abs_less_iff)
  have kb: "k \<le> 2 ^ 53" "- (2 ^ 53) \<le> k"
    using rhe_le [of "x / q" "2 ^ 53"] rhe_ge [of "- (2 ^ 53)" "x / q"] xq
    unfolding k_def by simp_all
  have eg: "- 1022 \<le> expo x" by (rule expo_ge)
  show ?thesis
  proof (cases "\<bar>k\<bar> < 2 ^ 53")
    case True
    then have "\<bar>of_int k :: real\<bar> < 2 ^ 53"
      by (metis of_int_abs of_int_less_iff of_int_numeral of_int_power)
    then have "\<bar>round_val x\<bar> < 2 ^ 53 * q" using q by (simp add: rv abs_mult)
    then have "\<bar>round_val x\<bar> < 2 powi (expo x + 1)" by (simp add: top)
    from expo_le [OF this eg] have "expo (round_val x) \<le> expo x" .
    moreover have "round_val x = of_int k * 2 powi (expo x - 52)"
      by (simp add: rv q_def quantum_def)
    ultimately show ?thesis unfolding on_grid_def by blast
  next
    case False
    with kb have "k = 2 ^ 53 \<or> k = - (2 ^ 53)" by auto
    then have kk: "\<bar>of_int k :: real\<bar> = 2 ^ 53" by auto
    have q2: "(2::real) powi (expo x - 51) = 2 * q"
      using pow2_split [of 1 "expo x - 52"] by (simp add: q_def quantum_def add.commute)
    have "\<bar>round_val x\<bar> = 2 powi (expo x + 1)"
      using q kk by (simp add: rv abs_mult top)
    also have "\<dots> < 2 powi (expo x + 1 + 1)"
      by (intro power_int_strict_increasing) simp_all
    finally have "expo (round_val x) \<le> expo x + 1"
      using eg by (intro expo_le) simp_all
    moreover have "round_val x = of_int (k div 2) * 2 powi (expo x + 1 - 52)"
      using \<open>k = 2 ^ 53 \<or> k = - (2 ^ 53)\<close> by (auto simp: rv q2)
    ultimately show ?thesis unfolding on_grid_def by blast
  qed
qed

lemma on_grid_nat:
  assumes "n \<le> 2 ^ 53"
  shows "on_grid (real n)"
proof (cases "n < 2 ^ 53")
  case True
  then have "\<bar>real n\<bar> < 2 powi (52 + 1)" by (simp add: power_int_def) 
  then have "expo (real n) \<le> 52" by (intro expo_le) simp_all
  moreover have "real n = of_int (int n) * 2 powi (52 - 52)" by simp
  ultimately show ?thesis unfolding on_grid_def by blast
next
  case False
  with assms have n: "n = 2 ^ 53" by simp
  have "\<bar>real n\<bar> < 2 powi (53 + 1)" by (simp add: n power_int_def)
  then have "expo (real n) \<le> 53" by (intro expo_le) simp_all
  moreover have "real n = of_int (2 ^ 52) * 2 powi (53 - 52)" by (simp add: n)
  ultimately show ?thesis unfolding on_grid_def by blast
qed

lemma round_val_err: "\<bar>round_val x - x\<bar> \<le> quantum x / 2"
proof -
  have q: "0 < quantum x" by (rule quantum_pos)
  have "round_val x - x = quantum x * (of_int (round_half_even (x / quantum x)) - x / quantum x)"
    using q by (simp add: round_val_def field_simps)
  then have "\<bar>round_val x - x\<bar> = quantum x * \<bar>of_int (round_half_even (x / quantum x)) - x / quantum x\<bar>"
    using q by (simp add: abs_mult)
  also have "\<dots> \<le> quantum x * (1 / 2)"
    using q rhe_err [of "x / quantum x"] by (intro mult_left_mono) simp_all
  finally show ?thesis by simp
qed

lemma round_val_rel_err:
  assumes "2 powi (- 1022) \<le> \<bar>x\<bar>"
  shows "\<bar>round_val x - x\<bar> \<le> \<bar>x\<bar> / 2 ^ 53"
proof -
  have "quantum x = 2 powi (expo x) * 2 powi (- 52)"
    unfolding quantum_def using pow2_split [of "expo x" "- 52"] by simp
  also have "\<dots> \<le> \<bar>x\<bar> * 2 powi (- 52)"
    using expo_lower [OF assms] by (intro mult_right_mono) simp_all
  finally have "quantum x / 2 \<le> \<bar>x\<bar> / 2 ^ 53" by (simp add: power_int_minus field_simps)
  with round_val_err [of x] show ?thesis by simp
qed


subsection \<open>Auxiliary facts\<close>

lemma effects_emit [simp]: "effects (emit e w) = effects w @ [e]"
  by (simp add: emit_def)

lemma webcam_draws_append [simp]: "webcam_draws (xs @ ys) = webcam_draws xs @ webcam_draws ys"
  by (simp add: webcam_draws_def)

lemma webcam_draws_Nil [simp]: "webcam_draws [] = []"
  by (simp add: webcam_draws_def)

lemma webcam_draws_Cons [simp]: "webcam_draws (e # es) = webcam_draw e @ webcam_draws es"
  by (simp add: webcam_draws_def)

lemma effects_drawFrame:
  "effects (drawFrame W H dx dy dw dh st w) =
     effects w @ [DrawImage ScreenVideo (Fin 0) (Fin 0) (Fin (real W)) (Fin (real H)),
                  DrawImage WebcamVideo dx dy dw dh,
                  if \<not> fst st \<and> \<not> snd st
                  then RequestAnimationFrame (Suc (lastFrameId w)) (DrawFrame W H dx dy dw dh)
                  else RecorderStop CombinedRecorder]"
  by (simp add: drawFrame_def Let_def requestAnimationFrame_def emit_def)

lemma combineVideos_draws:
  "webcam_draws (effects (combineVideos q pos pc b1 b2 (Some (sd, (vw, vh))) True st s)) =
     webcam_draws (effects s) @
       [webcam_rect (fst (videoQualities q)) (snd (videoQualities q)) pc pos vw vh]"
  by (simp add: combineVideos_def Let_def effects_drawFrame split: prod.splits)

lemma p0_combineVideos_draws:
  "p0_screenRecordingUrl s \<noteq> None \<Longrightarrow> p0_webcamRecordingUrl s \<noteq> None \<Longrightarrow>
   webcam_draws (effects (p0_combineVideos (Some (sd, (vw, vh))) True st s)) =
     webcam_draws (effects s) @
       [webcam_rect (fst (videoQualities (p0_videoQuality s))) (snd (videoQualities (p0_videoQuality s)))
          (p0_webcamSize s) (p0_webcamPosition s) vw vh]"
  by (simp add: p0_combineVideos_def Let_def effects_drawFrame emit_def split: prod.splits)

lemma stopTracks_effects: "stopTracks ts w = w\<lparr>effects := effects w @ map TrackStop ts\<rparr>"
  by (induction ts arbitrary: w) (simp_all add: emit_def)

lemma stop_stream_effects:
  "stop_stream streamRef w = w\<lparr>effects := effects w @ map TrackStop (tracks_of streamRef)\<rparr>"
  by (cases streamRef) (simp_all add: stop_stream_def tracks_of_def stopTracks_effects)

lemma destination_inputs_append [simp]:
  "destination_inputs (xs @ ys) = destination_inputs xs @ destination_inputs ys"
  by (simp add: destination_inputs_def)

lemma destination_inputs_Nil [simp]: "destination_inputs [] = []"
  by (simp add: destination_inputs_def)

lemma destination_inputs_Cons [simp]:
  "destination_inputs (e # es) = destination_input e @ destination_inputs es"
  by (simp add: destination_inputs_def)

lemma combineVideos_effects:
  "effects (combineVideos q pos pc b1 b2 (Some (sd, (vw, vh))) True st s) =
     effects s @
       [CreateElement ''video'', CreateElement ''video'', CreateObjectURL b1, CreateObjectURL b2,
        CreateElement ''canvas'',
        NewMediaRecorder (MediaRecorder CombinedRecorder CanvasStream (Some ''video/webm; codecs=vp9'')),
        RecorderStart CombinedRecorder None, Play ScreenVideo, Play WebcamVideo] @
       loop_trace (fst (videoQualities q)) (snd (videoQualities q))
         (webcamX (webcam_rect (fst (videoQualities q)) (snd (videoQualities q)) pc pos vw vh))
         (webcamY (webcam_rect (fst (videoQualities q)) (snd (videoQualities q)) pc pos vw vh))
         (webcamWidth (webcam_rect (fst (videoQualities q)) (snd (videoQualities q)) pc pos vw vh))
         (webcamHeight (webcam_rect (fst (videoQualities q)) (snd (videoQualities q)) pc pos vw vh))
         [st] (lastFrameId s) @
       [AudioConnect (MediaElementSource ScreenVideo) MediaStreamDestination,
        AudioConnect (MediaElementSource WebcamVideo) MediaStreamDestination,
        NewMediaRecorder (MediaRecorder FinalRecorder CanvasVideoWithDestinationAudio
                            (Some ''video/webm; codecs=vp9'')),
        RecorderStart FinalRecorder None]"
  by (cases st) (simp add: combineVideos_def Let_def effects_drawFrame emit_def split: prod.splits)

lemma combineVideos_no_context:
  "combineVideos q pos pc b1 b2 (Some m) False st s =
     s\<lparr>effects := effects s @
          [CreateElement ''video'', CreateElement ''video'', CreateObjectURL b1, CreateObjectURL b2,
           CreateElement ''canvas'', ConsoleError ''Unable to create canvas context''],
       recordingState := processing\<rparr>"
  by (cases m) (simp add: combineVideos_def Let_def emit_def split: prod.splits)

lemma combineVideos_state: "recordingState (combineVideos q pos pc b1 b2 m ctx st s) = processing"
  by (cases st)
    (simp add: combineVideos_def Let_def emit_def drawFrame_def requestAnimationFrame_def
      split: prod.splits option.splits)

lemma startRecording_state:
  "recordingState (startRecording displayMedia userMedia audioSetup data s) =
     (if displayMedia \<noteq> None \<and> userMedia \<noteq> None \<and> audioSetup then recording
      else recordingState s)"
  by (simp add: startRecording_def requestPermissions_def permission_denied_def detectVoice_def
      checkAudio_def requestAnimationFrame_def emit_def Let_def split: option.splits prod.splits)

lemma sr_combineVideos_state:
  "sr_recordingState (sr_combineVideos m ctx st t) = sr_recordingState t"
  by (cases st)
    (simp add: sr_combineVideos_def Let_def emit_def drawFrame_def requestAnimationFrame_def
      split: prod.splits option.splits)

lemma find_of_filter: "filter P xs = [a] \<Longrightarrow> find P xs = Some a"
  by (induction xs) (auto split: if_splits)

lemma filter_remove1_single: "filter P xs = [a] \<Longrightarrow> filter P (remove1 a xs) = []"
proof (induction xs)
  case Nil
  then show ?case by simp
next
  case (Cons x xs)
  show ?case
  proof (cases "P x")
    case True
    with Cons.prems have "x = a" "filter P xs = []" by simp_all
    then show ?thesis by simp
  next
    case False
    with Cons.prems have f: "filter P xs = [a]" by simp
    then have "a \<in> set (filter P xs)" by simp
    then have "P a" by simp
    with False have "x \<noteq> a" by auto
    with Cons.IH f False show ?thesis by simp
  qed
qed

lemma animation_frames_idle:
  assumes "filter is_draw (pendingFrames w) = []"
  shows "animation_frames sts w = w"
proof -
  have "find is_draw (pendingFrames w) = None"
    using assms by (auto simp: find_None_iff filter_empty_conv)
  then show ?thesis by (cases sts) (simp_all add: animation_frame_def)
qed

lemma animation_frame_step:
  assumes "filter is_draw (pendingFrames w) = [(n, DrawFrame W H dx dy dw dh)]"
  shows "animation_frame st w =
    Some (drawFrame W H dx dy dw dh st
       (w\<lparr>pendingFrames := remove1 (n, DrawFrame W H dx dy dw dh) (pendingFrames w)\<rparr>))"
  using find_of_filter [OF assms] by (simp add: animation_frame_def)

lemma drawFrame_pending:
  "filter is_draw (pendingFrames (drawFrame W H dx dy dw dh st w)) =
     filter is_draw (pendingFrames w) @
       (if playing st then [(Suc (lastFrameId w), DrawFrame W H dx dy dw dh)] else [])"
  by (cases st) (simp add: drawFrame_def Let_def requestAnimationFrame_def emit_def)

lemma drawFrame_lastFrameId:
  "lastFrameId (drawFrame W H dx dy dw dh st w) =
     (if playing st then Suc (lastFrameId w) else lastFrameId w)"
  by (cases st) (simp add: drawFrame_def Let_def requestAnimationFrame_def emit_def)

lemma animation_frames_trace:
  assumes "filter is_draw (pendingFrames w) = [(n, DrawFrame W H dx dy dw dh)]"
  shows "effects (animation_frames sts w) =
           effects w @ loop_trace W H dx dy dw dh sts (lastFrameId w)"
  using assms
proof (induction sts arbitrary: w n)
  case Nil
  then show ?case by simp
next
  case (Cons st sts)
  let ?w0 = "w\<lparr>pendingFrames := remove1 (n, DrawFrame W H dx dy dw dh) (pendingFrames w)\<rparr>"
  let ?w1 = "drawFrame W H dx dy dw dh st ?w0"
  have step: "animation_frame st w = Some ?w1" by (rule animation_frame_step [OF Cons.prems])
  have none: "filter is_draw (pendingFrames ?w0) = []"
    using filter_remove1_single [OF Cons.prems] by simp
  have e1: "effects ?w1 = effects w @
      [DrawImage ScreenVideo (Fin 0) (Fin 0) (Fin (real W)) (Fin (real H)),
       DrawImage WebcamVideo dx dy dw dh,
       if playing st then RequestAnimationFrame (Suc (lastFrameId w)) (DrawFrame W H dx dy dw dh)
       else RecorderStop CombinedRecorder]"
    by (cases st) (simp add: effects_drawFrame)
  show ?case
  proof (cases "playing st")
    case True
    have p: "filter is_draw (pendingFrames ?w1) = [(Suc (lastFrameId w), DrawFrame W H dx dy dw dh)]"
      using True none by (simp add: drawFrame_pending)
    have l: "lastFrameId ?w1 = Suc (lastFrameId w)" using True by (simp add: drawFrame_lastFrameId)
    show ?thesis using Cons.IH [OF p] step True e1 l by simp
  next
    case False
    have p: "filter is_draw (pendingFrames ?w1) = []"
      using False none by (simp add: drawFrame_pending)
    show ?thesis using animation_frames_idle [OF p] step False e1 by simp
  qed
qed

lemma animation_frames_pending:
  assumes "filter is_draw (pendingFrames w) = [(n, DrawFrame W H dx dy dw dh)]"
  shows "filter is_draw (pendingFrames (animation_frames sts w)) =
     (if list_all playing sts
      then [(if sts = [] then n else lastFrameId w + length sts, DrawFrame W H dx dy dw dh)]
      else [])"
  using assms
proof (induction sts arbitrary: w n)
  case Nil
  then show ?case by simp
next
  case (Cons st sts)
  let ?w0 = "w\<lparr>pendingFrames := remove1 (n, DrawFrame W H dx dy dw dh) (pendingFrames w)\<rparr>"
  let ?w1 = "drawFrame W H dx dy dw dh st ?w0"
  have step: "animation_frame st w = Some ?w1" by (rule animation_frame_step [OF Cons.prems])
  have none: "filter is_draw (pendingFrames ?w0) = []"
    using filter_remove1_single [OF Cons.prems] by simp
  show ?case
  proof (cases "playing st")
    case True
    have p: "filter is_draw (pendingFrames ?w1) = [(Suc (lastFrameId w), DrawFrame W H dx dy dw dh)]"
      using True none by (simp add: drawFrame_pending)
    have l: "lastFrameId ?w1 = Suc (lastFrameId w)" using True by (simp add: drawFrame_lastFrameId)
    show ?thesis using Cons.IH [OF p] step True l by simp
  next
    case False
    have p: "filter is_draw (pendingFrames ?w1) = []"
      using False none by (simp add: drawFrame_pending)
    show ?thesis using animation_frames_idle [OF p] step False p by simp
  qed
qed

lemma loop_trace_stop:
  "RecorderStop CombinedRecorder \<in> set (loop_trace W H dx dy dw dh sts n) \<longleftrightarrow>
     \<not> list_all playing sts"
  by (induction sts arbitrary: n) auto

lemmas page_defs = started_def stopped_def compositing_def initial_def startRecording_def
  requestPermissions_def permission_denied_def detectVoice_def checkAudio_def
  requestAnimationFrame_def emit_def Let_def stopRecording_def stop_stream_def cancel_frame_def
  cancelAnimationFrame_def screenRecorder_onstop_def combineVideos_def
  webcamRecorder_ondataavailable_def screenRecorder_ondataavailable_def drawFrame_def
  set_srcObject_def pauseRecording_def resumeRecording_def
  combinedRecorder_ondataavailable_def finalRecorder_ondataavailable_def
  combinedRecorder_onstop_def finalRecorder_onstop_def animation_frame_def cleanup_def

lemma round64_values:
  "round64 270 = Fin 270" "round64 1650 = Fin 1650" "round64 1640 = Fin 1640"
  "round64 810 = Fin 810" "round64 800 = Fin 800"
  by (simp_all add: f64_eval)

lemmas sr_defs = round64_values sr_started_def sr_compositing_def sr_initial_def sr_startRecording_def
  sr_requestPermissions_def permission_denied_def requestAnimationFrame_def emit_def Let_def
  sr_stopRecording_def stop_stream_def sr_combineVideos_def sr_webcamRecorder_ondataavailable_def
  sr_screenRecorder_ondataavailable_def drawFrame_def set_srcObject_def sr_pauseRecording_def
  sr_resumeRecording_def sr_combinedRecorder_ondataavailable_def sr_combinedRecorder_onstop_def
  animation_frame_def sr_cleanup_def


lemma round_val_zero: "round_val 0 = 0"
proof -
  have "on_grid 0" unfolding on_grid_def by (intro exI [of _ 0] exI [of _ "expo 0"]) simp
  from round_val_abs_bound [OF this, of 0] show ?thesis by simp
qed

lemma on_grid_pow2: "on_grid (2 ^ n)"
proof -
  have "\<bar>(2::real) ^ n\<bar> < 2 powi (int n + 1)"
    by (simp add: power_int_add power_int_def)
  then have "expo (2 ^ n) \<le> int n" by (intro expo_le) simp_all
  moreover have "(2::real) ^ n = of_int (2 ^ 52) * 2 powi (int n - 52)"
    using pow2_split [of 52 "int n - 52"] by (simp add: power_int_def)
  ultimately show ?thesis unfolding on_grid_def by blast
qed

lemma on_grid_one: "on_grid 1"
  using on_grid_pow2 [of 0] by simp

lemma round64_fin:
  assumes "on_grid d" "d < 2 ^ 1024" "\<bar>t\<bar> \<le> d"
  shows "round64 t = Fin (round_val t)"
  using round_val_abs_bound [OF assms(1,3)] assms(2) by (simp add: round64_def Let_def)

lemma percent_round:
  assumes "0 \<le> p" "p \<le> 100"
  shows "round64 (p / 100) = Fin (round_val (p / 100))"
    and "0 \<le> round_val (p / 100)" and "round_val (p / 100) \<le> 1"
proof -
  have a: "\<bar>p / 100\<bar> \<le> 1" using assms by simp
  show "round64 (p / 100) = Fin (round_val (p / 100))"
    using a by (intro round64_fin [OF on_grid_one]) simp_all
  show "0 \<le> round_val (p / 100)" using assms by (intro round_val_nonneg) simp
  show "round_val (p / 100) \<le> 1" using round_val_abs_bound [OF on_grid_one a] by simp
qed

lemma round_under_grid:
  assumes "on_grid d" "d < 2 ^ 1024" "0 \<le> t" "t \<le> d"
  shows "round64 t = Fin (round_val t)" and "0 \<le> round_val t" and "round_val t \<le> d"
proof -
  have a: "\<bar>t\<bar> \<le> d" using assms by simp
  show "round64 t = Fin (round_val t)" by (rule round64_fin [OF assms(1,2) a])
  show "0 \<le> round_val t" by (rule round_val_nonneg [OF assms(3)])
  show "round_val t \<le> d" using round_val_abs_bound [OF assms(1) a] by simp
qed

lemma dim_bound: "n \<le> 2 ^ 53 \<Longrightarrow> real n < 2 ^ 1024"
proof -
  assume "n \<le> 2 ^ 53"
  then have "real n \<le> 2 ^ 53" by (metis of_nat_le_iff of_nat_numeral of_nat_power)
  also have "(2::real) ^ 53 < 2 ^ 1024" by (intro power_strict_increasing) simp_all
  finally show ?thesis .
qed

lemma webcam_rect_rounded:
  assumes s: "0 \<le> s" "s \<le> 100" and x: "0 \<le> x" "x \<le> 100" and y: "0 \<le> y" "y \<le> 100"
    and vw: "0 < vw" and d: "w \<le> 2 ^ 53" "h \<le> 2 ^ 53" "vw \<le> 2 ^ 53" "vh \<le> 2 ^ 53"
  shows "webcam_rect w h s (x, y) vw vh = rounded_overlay w h s x y vw vh"
    and "0 \<le> round_val (round_val (s / 100) * real w)"
    and "round_val (round_val (s / 100) * real w) \<le> real w"
    and "0 \<le> round_val (round_val (round_val (round_val (s / 100) * real w) / real vw) * real vh)"
proof -
  define ps where "ps = round_val (s / 100)"
  define W where "W = round_val (ps * real w)"
  define r where "r = round_val (W / real vw)"
  define H where "H = round_val (r * real vh)"
  define Dx where "Dx = round_val (real w - W)"
  define px where "px = round_val (x / 100)"
  define Dy where "Dy = round_val (real h - H)"
  define py where "py = round_val (y / 100)"
  note gw = on_grid_nat [OF d(1)] and bw = dim_bound [OF d(1)]
  have rw: "real w \<le> 2 ^ 53" "real h \<le> 2 ^ 53" "real vh \<le> 2 ^ 53"
    using d by (metis of_nat_le_iff of_nat_numeral of_nat_power)+
  have big: "(2::real) ^ 106 < 2 ^ 1024" by (intro power_strict_increasing) simp_all
  have e1: "round64 (s / 100) = Fin ps" and ps: "0 \<le> ps" "ps \<le> 1"
    using percent_round [OF s] by (simp_all add: ps_def)
  have e6: "round64 (x / 100) = Fin px" and px: "0 \<le> px" "px \<le> 1"
    using percent_round [OF x] by (simp_all add: px_def)
  have e9: "round64 (y / 100) = Fin py" and py: "0 \<le> py" "py \<le> 1"
    using percent_round [OF y] by (simp_all add: py_def)
  have t2: "0 \<le> ps * real w" "ps * real w \<le> real w"
    using ps by (simp_all add: mult_left_le_one_le)
  have e2: "round64 (ps * real w) = Fin W" and W: "0 \<le> W" "W \<le> real w"
    using round_under_grid [OF gw bw t2] by (simp_all add: W_def)
  have t3: "0 \<le> W / real vw" "W / real vw \<le> real w"
  proof -
    show "0 \<le> W / real vw" using W by simp
    have "1 \<le> real vw" using vw by simp
    then have "W * 1 \<le> W * real vw" using W(1) by (intro mult_left_mono) simp_all
    then have "W / real vw \<le> W" using vw by (simp add: divide_le_eq)
    then show "W / real vw \<le> real w" using W(2) by simp
  qed
  have e3: "round64 (W / real vw) = Fin r" and r: "0 \<le> r" "r \<le> real w"
    using round_under_grid [OF gw bw t3] by (simp_all add: r_def)
  have t4: "0 \<le> r * real vh" "r * real vh \<le> 2 ^ 106"
  proof -
    show "0 \<le> r * real vh" using r by simp
    have "r * real vh \<le> 2 ^ 53 * 2 ^ 53"
      using r rw by (intro mult_mono) simp_all
    then show "r * real vh \<le> 2 ^ 106" by simp
  qed
  have e4: "round64 (r * real vh) = Fin H" and H: "0 \<le> H" "H \<le> 2 ^ 106"
    using round_under_grid [OF on_grid_pow2 big t4] by (simp_all add: H_def)
  have t5: "0 \<le> real w - W" "real w - W \<le> real w" using W by simp_all
  have e5: "round64 (real w - W) = Fin Dx" and Dx: "0 \<le> Dx" "Dx \<le> real w"
    using round_under_grid [OF gw bw t5] by (simp_all add: Dx_def)
  have t7: "0 \<le> px * Dx" "px * Dx \<le> real w"
  proof -
    show "0 \<le> px * Dx" using px Dx by simp
    have "px * Dx \<le> Dx" using px Dx by (simp add: mult_left_le_one_le)
    then show "px * Dx \<le> real w" using Dx by simp
  qed
  have e7: "round64 (px * Dx) = Fin (round_val (px * Dx))"
    by (rule round_under_grid(1) [OF gw bw t7])
  have t8: "\<bar>real h - H\<bar> \<le> 2 ^ 106"
  proof -
    have "real h \<le> 2 ^ 106" using rw(2) by (rule order_trans) simp
    with H show ?thesis by (simp add: abs_le_iff)
  qed
  have e8: "round64 (real h - H) = Fin Dy" and Dy: "\<bar>Dy\<bar> \<le> 2 ^ 106"
    using round64_fin [OF on_grid_pow2 big t8] round_val_abs_bound [OF on_grid_pow2 t8]
    by (simp_all add: Dy_def)
  have t10: "\<bar>py * Dy\<bar> \<le> 2 ^ 106"
  proof -
    have "\<bar>py * Dy\<bar> = py * \<bar>Dy\<bar>" using py by (simp add: abs_mult)
    also have "\<dots> \<le> 1 * 2 ^ 106" using py Dy by (intro mult_mono) simp_all
    finally show ?thesis by simp
  qed
  have e10: "round64 (py * Dy) = Fin (round_val (py * Dy))"
    by (rule round64_fin [OF on_grid_pow2 big t10])
  have nz: "real vw \<noteq> 0" using vw by simp
  show "webcam_rect w h s (x, y) vw vh = rounded_overlay w h s x y vw vh"
    using nz
    by (simp add: webcam_rect_def rounded_overlay_def Let_def e1 e2 e3 e4 e5 e6 e7 e8 e9 e10
        flip: ps_def W_def r_def H_def Dx_def px_def Dy_def py_def)
  show "0 \<le> round_val (round_val (s / 100) * real w)" using W by (simp add: W_def ps_def)
  show "round_val (round_val (s / 100) * real w) \<le> real w" using W by (simp add: W_def ps_def)
  show "0 \<le> round_val (round_val (round_val (round_val (s / 100) * real w) / real vw) * real vh)"
    using H by (simp add: H_def r_def W_def ps_def)
qed


lemma videoQualities_small:
  "fst (videoQualities q) \<le> 2 ^ 53" "snd (videoQualities q) \<le> 2 ^ 53"
  by (cases q; simp)+

lemma webcam_rect_1080p:
  "webcam_rect 1920 1080 17 (5, 80) 640 480 =
     \<lparr> webcamX = Fin (1401745384019067 / 17592186044416),
       webcamY = Fin (2938598756859249 / 4398046511104),
       webcamWidth = Fin (5742089524897383 / 17592186044416),
       webcamHeight = Fin (4306567143673037 / 17592186044416) \<rparr>"
  by (simp add: webcam_rect_def f64_eval)

lemma webcam_rect_1080p_bottom:
  "webcam_rect 1920 1080 17 (5, 100) 640 480 =
     \<lparr> webcamX = Fin (1401745384019067 / 17592186044416),
       webcamY = Fin (3673248446074061 / 4398046511104),
       webcamWidth = Fin (5742089524897383 / 17592186044416),
       webcamHeight = Fin (4306567143673037 / 17592186044416) \<rparr>"
  by (simp add: webcam_rect_def f64_eval)

lemma webcam_rect_480p_right:
  "webcam_rect 854 480 10 (100, 0) 640 480 =
     \<lparr> webcamX = Fin (6760677096869069 / 8796093022208),
       webcamY = Fin 0,
       webcamWidth = Fin (3004745376386253 / 35184372088832),
       webcamHeight = Fin (1126779516144845 / 17592186044416) \<rparr>"
  by (simp add: webcam_rect_def f64_eval)

lemma sub_round_bound:
  assumes n: "n \<le> 2 ^ 53" and a: "0 \<le> a" "a \<le> real n"
  shows "0 \<le> round_val (real n - a)"
    and "round_val (real n - a) \<le> real n - a + real n / 2 ^ 53"
    and "on_grid (round_val (real n - a))"
proof -
  define z where "z = real n - a"
  have z: "0 \<le> z" "z \<le> real n" using a by (simp_all add: z_def)
  have "real n < 2 ^ 1024" by (rule dim_bound [OF n])
  also have "(2::real) ^ 1024 < 2 ^ 1025" by (intro power_strict_increasing) simp_all
  finally have "\<bar>z\<bar> < 2 ^ 1025" using z by simp
  then show "on_grid (round_val (real n - a))" unfolding z_def [symmetric] by (rule round_val_on_grid)
  show "0 \<le> round_val (real n - a)" unfolding z_def [symmetric] by (rule round_val_nonneg [OF z(1)])
  have "round_val z \<le> z + real n / 2 ^ 53"
  proof (cases "z = 0")
    case True
    then show ?thesis by (simp add: round_val_zero)
  next
    case False
    with z have "0 < real n" by simp
    then have n1: "1 \<le> real n" by simp
    show ?thesis
    proof (cases "2 powi (- 1022) \<le> \<bar>z\<bar>")
      case True
      from round_val_rel_err [OF True] z(1) have "\<bar>round_val z - z\<bar> \<le> z / 2 ^ 53"
        by (simp only: abs_of_nonneg)
      then have "round_val z - z \<le> z / 2 ^ 53" by (rule abs_le_D1)
      also have "\<dots> \<le> real n / 2 ^ 53" using z by (simp add: divide_right_mono)
      finally show ?thesis by simp
    next
      case False
      then have "expo z = - 1022" by (intro expo_small) simp
      then have "quantum z = 2 powi (- 1074)" by (simp add: quantum_def)
      with round_val_err [of z] have "\<bar>round_val z - z\<bar> \<le> 2 powi (- 1074) / 2" by simp
      then have "round_val z - z \<le> 2 powi (- 1074) / 2" by (rule abs_le_D1)
      also have "(2::real) powi (- 1074) / 2 \<le> 2 powi (- 53)"
      proof -
        have "(2::real) powi (- 1074) \<le> 2 powi (- 53)" by (intro power_int_increasing) simp_all
        moreover have "0 \<le> (2::real) powi (- 1074)" by simp
        ultimately show ?thesis by linarith
      qed
      also have "(2::real) powi (- 53) = 1 / 2 ^ 53" by (simp add: power_int_minus field_simps)
      also have "\<dots> \<le> real n / 2 ^ 53" using n1 by (simp add: divide_right_mono)
      finally show ?thesis by simp
    qed
  qed
  then show "round_val (real n - a) \<le> real n - a + real n / 2 ^ 53" by (simp add: z_def)
qed

lemma percent_of_grid:
  assumes p: "0 \<le> p" "p \<le> 100" and g: "on_grid d" "0 \<le> d" "d < 2 ^ 1024"
  shows "0 \<le> round_val (round_val (p / 100) * d)"
    and "round_val (round_val (p / 100) * d) \<le> d"
proof -
  note pr = percent_round [OF p]
  have t: "0 \<le> round_val (p / 100) * d" "round_val (p / 100) * d \<le> d"
    using pr(2,3) g(2) by (simp_all add: mult_left_le_one_le)
  from round_under_grid(2,3) [OF g(1,3) t]
  show "0 \<le> round_val (round_val (p / 100) * d)" "round_val (round_val (p / 100) * d) \<le> d" .
qed

lemma no_width_no_height:
  assumes s: "0 \<le> s" "s \<le> 100" and d: "w \<le> 2 ^ 53"
  shows "\<not> js_le (webcamHeight (webcam_rect w h s pos 0 vh)) (Fin b)"
proof -
  note pr = percent_round [OF s]
  have t: "0 \<le> round_val (s / 100) * real w" "round_val (s / 100) * real w \<le> real w"
    using pr(2,3) by (simp_all add: mult_left_le_one_le)
  note rw = round_under_grid [OF on_grid_nat [OF d] dim_bound [OF d] t]
  show ?thesis
    by (cases "round_val (round_val (s / 100) * real w) = 0"; cases "vh = 0")
      (use rw(2) in \<open>auto simp: webcam_rect_def Let_def pr(1) rw(1)\<close>)
qed

lemma width_error:
  assumes s: "10 \<le> s" "s \<le> 50" and d: "w \<le> 2 ^ 53"
  shows "\<bar>round_val (round_val (s / 100) * real w) - s / 100 * real w\<bar>
           \<le> 3 * (s / 100 * real w) / 2 ^ 53"
proof (cases "w = 0")
  case True
  then show ?thesis by (simp add: round_val_zero)
next
  case False
  then have w1: "1 \<le> real w" by simp
  define a where "a = s / 100"
  define p where "p = round_val a"
  define u :: real where "u = 1 / 2 ^ 53"
  have a: "1 / 10 \<le> a" "a \<le> 1 / 2" using s by (simp_all add: a_def)
  have u: "0 < u" "u \<le> 1 / 2" by (simp_all add: u_def)
  have small: "(2::real) powi (- 1022) \<le> 1 / 20"
  proof -
    have "(2::real) powi (- 1022) \<le> 2 powi (- 5)" by (intro power_int_increasing) simp_all
    also have "\<dots> \<le> 1 / 20" by (simp add: power_int_minus)
    finally show ?thesis .
  qed
  have "2 powi (- 1022) \<le> \<bar>a\<bar>" using small a by simp
  from round_val_rel_err [OF this] have pa: "\<bar>p - a\<bar> \<le> a * u"
    using a by (simp add: p_def u_def)
  then have pb: "a - a * u \<le> p" "p \<le> a + a * u" by (simp_all add: abs_le_iff)
  have au: "a * u \<le> a * (1 / 2)" using a u by (intro mult_left_mono) simp_all
  have p: "1 / 20 \<le> p" "p \<le> 2 * a" using au pb a by linarith+
  have "1 / 20 * 1 \<le> p * real w" using p w1 by (intro mult_mono) simp_all
  then have "2 powi (- 1022) \<le> \<bar>p * real w\<bar>" using small by simp
  from round_val_rel_err [OF this] have "\<bar>round_val (p * real w) - p * real w\<bar> \<le> p * real w * u"
    using p by (simp add: u_def abs_mult)
  also have "\<dots> \<le> 2 * a * real w * u" using p u by (intro mult_right_mono) simp_all
  finally have e1: "\<bar>round_val (p * real w) - p * real w\<bar> \<le> 2 * a * real w * u" .
  have "\<bar>p * real w - a * real w\<bar> = \<bar>p - a\<bar> * real w"
    by (simp add: abs_mult left_diff_distrib [symmetric])
  also have "\<dots> \<le> a * u * real w" using pa by (intro mult_right_mono) simp_all
  finally have e2: "\<bar>p * real w - a * real w\<bar> \<le> a * real w * u" by (simp add: mult.commute mult.left_commute)
  have "\<bar>round_val (p * real w) - a * real w\<bar> \<le> 3 * (a * real w) * u"
    using e1 e2 by (simp add: abs_le_iff algebra_simps)
  then show ?thesis by (simp add: p_def a_def u_def)
qed


subsection \<open>Overlay geometry\<close>

text \<open>
  C2, as stated: the overlay geometry that \<open>combineVideos\<close> computes is the linear map
  \<open>webcamWidth = (s/100) w\<close>, and so on. It is that map only up to rounding: the
  operations are carried out in binary64. At 1920 by 1080 with size 17, position (5, 80)
  and a 640 by 480 webcam video, the rectangle in which the page draws the webcam frame has
  the width 326.40000000000003 and the top 668.1600000000001, where the linear map has
  326.4 and 668.16.
\<close>

theorem C2_overlay_is_rounded:
  "webcam_draws (effects (combineVideos Q1080p (5, 80) 17 (Blob [1] ''video/webm'')
       (Blob [2] ''video/webm'') (Some ((1920, 1080), (640, 480))) True (False, False) initial)) =
     [\<lparr> webcamX = Fin (1401745384019067 / 17592186044416),
        webcamY = Fin (2938598756859249 / 4398046511104),
        webcamWidth = Fin (5742089524897383 / 17592186044416),
        webcamHeight = Fin (4306567143673037 / 17592186044416) \<rparr>] \<and>
   linear_overlay 1920 1080 17 5 80 640 480 =
     \<lparr> webcamX = Fin (1992 / 25), webcamY = Fin (16704 / 25),
       webcamWidth = Fin (1632 / 5), webcamHeight = Fin (1224 / 5) \<rparr> \<and>
   webcam_rect 1920 1080 17 (5, 80) 640 480 \<noteq> linear_overlay 1920 1080 17 5 80 640 480"
  by (simp add: combineVideos_draws webcam_rect_1080p linear_overlay_def initial_def)

text \<open>
  C2, amended. For every canvas width \<open>w\<close> and height \<open>h\<close>, every size percentage \<open>s\<close> in
  [10,50], every position percentages \<open>x, y\<close> in [0,100] and every webcam video with a
  width, all dimensions being integers of at most \<open>2^53\<close> (those of a canvas and of a
  video are below \<open>2^32\<close>), the rectangle that \<open>combineVideos\<close> computes is the linear
  map evaluated in binary64: each operation of
  \<open>webcamWidth = (s/100) w\<close>, \<open>webcamHeight = (webcamWidth / videoWidth) videoHeight\<close>,
  \<open>webcamX = (x/100) (w - webcamWidth)\<close>, \<open>webcamY = (y/100) (h - webcamHeight)\<close>
  is rounded to the nearest double, and all four results are finite. It is the
  rectangle in which the page and the second recorder component draw the webcam frame.
  The width differs from \<open>(s/100) w\<close> by at most \<open>3 / 2^53\<close> of it.
\<close>

theorem C2_overlay_is_rounded_linear_map:
  assumes "10 \<le> s" "s \<le> 50" "0 \<le> x" "x \<le> 100" "0 \<le> y" "y \<le> 100"
    and "0 < vw" "w \<le> 2 ^ 53" "h \<le> 2 ^ 53" "vw \<le> 2 ^ 53" "vh \<le> 2 ^ 53"
  shows "webcam_rect w h s (x, y) vw vh = rounded_overlay w h s x y vw vh \<and>
         webcam_draws (effects (combineVideos q (x, y) s b1 b2 (Some (sd, (vw, vh))) True st c)) =
           webcam_draws (effects c) @
             [rounded_overlay (fst (videoQualities q)) (snd (videoQualities q)) s x y vw vh] \<and>
         (p0_screenRecordingUrl t \<noteq> None \<and> p0_webcamRecordingUrl t \<noteq> None \<and>
          p0_webcamSize t = s \<and> p0_webcamPosition t = (x, y) \<longrightarrow>
            webcam_draws (effects (p0_combineVideos (Some (sd, (vw, vh))) True st t)) =
              webcam_draws (effects t) @
                [rounded_overlay (fst (videoQualities (p0_videoQuality t)))
                   (snd (videoQualities (p0_videoQuality t))) s x y vw vh]) \<and>
         \<bar>round_val (round_val (s / 100) * real w) - s / 100 * real w\<bar>
           \<le> 3 * (s / 100 * real w) / 2 ^ 53"
proof -
  have s: "0 \<le> s" "s \<le> 100" using assms(1,2) by simp_all
  have r: "webcam_rect w' h' s (x, y) vw vh = rounded_overlay w' h' s x y vw vh"
    if "w' \<le> 2 ^ 53" "h' \<le> 2 ^ 53" for w' h'
    using webcam_rect_rounded(1) [OF s assms(3-7) that assms(10,11)] .
  show ?thesis
  proof (intro conjI impI)
    show "webcam_rect w h s (x, y) vw vh = rounded_overlay w h s x y vw vh"
      by (rule r [OF assms(8,9)])
  next
    show "webcam_draws (effects (combineVideos q (x, y) s b1 b2 (Some (sd, (vw, vh))) True st c)) =
        webcam_draws (effects c) @
          [rounded_overlay (fst (videoQualities q)) (snd (videoQualities q)) s x y vw vh]"
      by (simp add: combineVideos_draws r [OF videoQualities_small])
  next
    assume "p0_screenRecordingUrl t \<noteq> None \<and> p0_webcamRecordingUrl t \<noteq> None \<and>
        p0_webcamSize t = s \<and> p0_webcamPosition t = (x, y)"
    then show "webcam_draws (effects (p0_combineVideos (Some (sd, (vw, vh))) True st t)) =
        webcam_draws (effects t) @
          [rounded_overlay (fst (videoQualities (p0_videoQuality t)))
             (snd (videoQualities (p0_videoQuality t))) s x y vw vh]"
      using p0_combineVideos_draws [of t sd vw vh st] by (simp add: r [OF videoQualities_small])
  next
    show "\<bar>round_val (round_val (s / 100) * real w) - s / 100 * real w\<bar>
        \<le> 3 * (s / 100 * real w) / 2 ^ 53"
      by (rule width_error [OF assms(1,2,8)])
  qed
qed

theorem C2_overlay_is_rounded_linear_map_witness:
  "webcam_rect 1920 1080 17 (5, 80) 640 480 = rounded_overlay 1920 1080 17 5 80 640 480 \<and>
   rounded_overlay 1920 1080 17 5 80 640 480 =
     \<lparr> webcamX = Fin (1401745384019067 / 17592186044416),
       webcamY = Fin (2938598756859249 / 4398046511104),
       webcamWidth = Fin (5742089524897383 / 17592186044416),
       webcamHeight = Fin (4306567143673037 / 17592186044416) \<rparr> \<and>
   webcam_draws (effects (p0_combineVideos (Some ((1920, 1080), (640, 480))) True (False, False)
       (p0_initial\<lparr>p0_screenRecordingUrl := Some (ObjectURL (Blob [1] ''video/webm'')),
                   p0_webcamRecordingUrl := Some (ObjectURL (Blob [2] ''video/webm'')),
                   p0_webcamSize := 17, p0_webcamPosition := (5, 80)\<rparr>))) =
     [rounded_overlay 1920 1080 17 5 80 640 480] \<and>
   \<bar>5742089524897383 / 17592186044416 - 17 / 100 * 1920\<bar> \<le> 3 * (17 / 100 * 1920) / (2 ^ 53 :: real)"
proof -
  have e: "round_val (round_val (17 / 100) * 1920) = 5742089524897383 / 17592186044416"
    by (simp add: f64_eval)
  have d: "(1920::nat) \<le> 2 ^ 53" "(1080::nat) \<le> 2 ^ 53" "(640::nat) \<le> 2 ^ 53" "(480::nat) \<le> 2 ^ 53"
    by simp_all
  note t = C2_overlay_is_rounded_linear_map [where s = 17 and x = 5 and y = 80 and w = 1920
      and h = 1080 and vw = 640 and vh = 480 and q = Q1080p and c = initial and sd = "(1920, 1080)"
      and st = "(False, False)" and ?b1.0 = "Blob [1] ''video/webm''"
      and ?b2.0 = "Blob [2] ''video/webm''"
      and t = "p0_initial\<lparr>p0_screenRecordingUrl := Some (ObjectURL (Blob [1] ''video/webm'')),
                   p0_webcamRecordingUrl := Some (ObjectURL (Blob [2] ''video/webm'')),
                   p0_webcamSize := 17, p0_webcamPosition := (5, 80)\<rparr>", OF _ _ _ _ _ _ _ d]
  have r: "webcam_rect 1920 1080 17 (5, 80) 640 480 = rounded_overlay 1920 1080 17 5 80 640 480"
    using t by simp
  show ?thesis
    using t e r [symmetric] by (simp add: webcam_rect_1080p p0_initial_def)
qed

text \<open>
  C9, as stated: under the ranges of the claim and a computed height of at most \<open>h\<close>
  the overlay rectangle lies within the canvas. In binary64 it can pass the canvas by
  the rounding of the subtraction. At 1920 by 1080 with size 17, position (5, 100) and a
  640 by 480 webcam video the computed height is at most 1080, and top plus height is
  \<open>1080 + 2^-44\<close>; at 854 by 480 with size 10 and position (100, 0), left plus width is
  \<open>854 + 2^-45\<close>.
\<close>

theorem C9_overlay_passes_canvas:
  "js_le (webcamHeight (webcam_rect 1920 1080 17 (5, 100) 640 480)) (Fin 1080) \<and>
   webcamY (webcam_rect 1920 1080 17 (5, 100) 640 480) = Fin (3673248446074061 / 4398046511104) \<and>
   webcamHeight (webcam_rect 1920 1080 17 (5, 100) 640 480) = Fin (4306567143673037 / 17592186044416) \<and>
   3673248446074061 / 4398046511104 + 4306567143673037 / 17592186044416 = (1080 + 1 / 2 ^ 44 :: real) \<and>
   \<not> inside_canvas (webcam_rect 1920 1080 17 (5, 100) 640 480) 1920 1080 \<and>
   js_le (webcamHeight (webcam_rect 854 480 10 (100, 0) 640 480)) (Fin 480) \<and>
   webcamX (webcam_rect 854 480 10 (100, 0) 640 480) = Fin (6760677096869069 / 8796093022208) \<and>
   webcamWidth (webcam_rect 854 480 10 (100, 0) 640 480) = Fin (3004745376386253 / 35184372088832) \<and>
   6760677096869069 / 8796093022208 + 3004745376386253 / 35184372088832 = (854 + 1 / 2 ^ 45 :: real) \<and>
   \<not> inside_canvas (webcam_rect 854 480 10 (100, 0) 640 480) 854 480"
  by (simp add: webcam_rect_1080p_bottom webcam_rect_480p_right)

text \<open>
  C9, amended. For every canvas width \<open>w\<close> and height \<open>h\<close> and every webcam video, all
  dimensions being integers of at most \<open>2^53\<close> (those of a canvas and of a video are
  below \<open>2^32\<close>), every size percentage in [10,50] and position percentages in
  [0,100]: if the overlay height that
  \<open>combineVideos\<close> computes is at most \<open>h\<close>, then the four numbers of the overlay
  rectangle are finite, its corner is not negative, and it passes the canvas by at most
  the rounding error of one subtraction: left plus width is at most \<open>w + w / 2^53\<close> and
  top plus height at most \<open>h + h / 2^53\<close>.
\<close>

theorem C9_overlay_within_canvas_rounded:
  assumes "10 \<le> s" "s \<le> 50" "0 \<le> x" "x \<le> 100" "0 \<le> y" "y \<le> 100"
    and d: "w \<le> 2 ^ 53" "h \<le> 2 ^ 53" "vw \<le> 2 ^ 53" "vh \<le> 2 ^ 53"
    and H: "js_le (webcamHeight (webcam_rect w h s (x, y) vw vh)) (Fin (real h))"
  shows "inside_canvas_rounded (webcam_rect w h s (x, y) vw vh) w h"
proof -
  have s: "0 \<le> s" "s \<le> 100" using assms(1,2) by simp_all
  have vw: "0 < vw" using H no_width_no_height [OF s d(1), of h "(x, y)" vh "real h"]
    by (cases "vw = 0") simp_all
  note rr = webcam_rect_rounded [OF s assms(3-6) vw d]
  define W where "W = round_val (round_val (s / 100) * real w)"
  define H' where "H' = round_val (round_val (W / real vw) * real vh)"
  have W: "0 \<le> W" "W \<le> real w" using rr(2,3) by (simp_all add: W_def)
  have H0: "0 \<le> H'" using rr(4) by (simp add: H'_def W_def)
  have Hh: "H' \<le> real h" using H by (simp add: rr(1) rounded_overlay_def Let_def H'_def W_def)
  note sx = sub_round_bound [OF d(1) W]
  note sy = sub_round_bound [OF d(2) H0 Hh]
  have bx: "round_val (real w - W) < 2 ^ 1024"
  proof -
    have "round_val (real w - W) \<le> real w"
      using round_under_grid(3) [OF on_grid_nat [OF d(1)] dim_bound [OF d(1)], of "real w - W"] W
      by simp
    with dim_bound [OF d(1)] show ?thesis by simp
  qed
  have bh: "round_val (real h - H') < 2 ^ 1024"
  proof -
    have "round_val (real h - H') \<le> real h"
      using round_under_grid(3) [OF on_grid_nat [OF d(2)] dim_bound [OF d(2)], of "real h - H'"] H0 Hh
      by simp
    with dim_bound [OF d(2)] show ?thesis by simp
  qed
  note px = percent_of_grid [OF assms(3,4) sx(3) sx(1) bx]
  note py = percent_of_grid [OF assms(5,6) sy(3) sy(1) bh]
  have "round_val (round_val (x / 100) * round_val (real w - W)) + W \<le> real w + real w / 2 ^ 53"
    using px(2) sx(2) by simp
  moreover have "round_val (round_val (y / 100) * round_val (real h - H')) + H' \<le> real h + real h / 2 ^ 53"
    using py(2) sy(2) by simp
  ultimately show ?thesis
    using px(1) py(1)
    by (simp add: rr(1) rounded_overlay_def Let_def flip: W_def H'_def)
qed

theorem C9_overlay_within_canvas_rounded_witness:
  "js_le (webcamHeight (webcam_rect 1920 1080 17 (5, 100) 640 480)) (Fin 1080) \<and>
   inside_canvas_rounded (webcam_rect 1920 1080 17 (5, 100) 640 480) 1920 1080"
proof -
  have H: "js_le (webcamHeight (webcam_rect 1920 1080 17 (5, 100) 640 480)) (Fin (real (1080::nat)))"
    by (simp add: webcam_rect_1080p_bottom)
  have d: "(1920::nat) \<le> 2 ^ 53" "(1080::nat) \<le> 2 ^ 53" "(640::nat) \<le> 2 ^ 53" "(480::nat) \<le> 2 ^ 53"
    by simp_all
  show ?thesis
    using H C9_overlay_within_canvas_rounded [where s = 17 and x = 5 and y = 100 and w = 1920
        and h = 1080 and vw = 640 and vh = 480, OF _ _ _ _ _ _ d]
    by simp
qed


subsection \<open>Guards of the recording controls\<close>

text \<open>
  C10. If no recording has been started, that is, the screen recorder reference or the
  webcam recorder reference is null, then \<open>pauseRecording\<close>, \<open>resumeRecording\<close> and
  \<open>stopRecording\<close> are each a no-op: the whole state, log included, is as it was. This
  holds in the page and in the first recorder component.
\<close>

theorem C10_controls_noop_without_recorders:
  "(screenRecorderRef s = None \<or> webcamRecorderRef s = None \<longrightarrow>
      pauseRecording s = s \<and> resumeRecording s = s \<and> stopRecording s = s) \<and>
   (sr_screenRecorderRef t = None \<or> sr_webcamRecorderRef t = None \<longrightarrow>
      sr_pauseRecording t = t \<and> sr_resumeRecording t = t \<and>
      sr_stopRecording loadedmetadata ctx status t = t)"
  by (auto simp: pauseRecording_def resumeRecording_def stopRecording_def
      sr_pauseRecording_def sr_resumeRecording_def sr_stopRecording_def)

theorem C10_controls_noop_without_recorders_witness:
  "screenRecorderRef initial = None \<and>
   pauseRecording initial = initial \<and> resumeRecording initial = initial \<and>
   stopRecording initial = initial \<and>
   sr_webcamRecorderRef sr_initial = None \<and>
   sr_pauseRecording sr_initial = sr_initial \<and> sr_resumeRecording sr_initial = sr_initial \<and>
   sr_stopRecording None True (False, False) sr_initial = sr_initial"
  using C10_controls_noop_without_recorders [of initial sr_initial None True "(False, False)"]
  by (simp add: initial_def sr_initial_def)

text \<open>
  C5. For every invocation of \<open>startRecording\<close> in which \<open>requestPermissions\<close> returns
  false (a capture request was rejected, or the audio set-up threw after both grants),
  \<open>startRecording\<close> returns what \<open>requestPermissions\<close> left: no recorder is constructed
  or started, the recorder references are as they were, and the recording state is
  unchanged, so it stays idle. This holds in the page and in the first recorder
  component.
\<close>

theorem C5_no_recording_without_permission:
  "(\<not> fst (requestPermissions displayMedia userMedia audioSetup s) \<longrightarrow>
      startRecording displayMedia userMedia audioSetup data s =
        snd (requestPermissions displayMedia userMedia audioSetup s) \<and>
      filter recorder_call (effects (startRecording displayMedia userMedia audioSetup data s)) =
        filter recorder_call (effects s) \<and>
      screenRecorderRef (startRecording displayMedia userMedia audioSetup data s) =
        screenRecorderRef s \<and>
      webcamRecorderRef (startRecording displayMedia userMedia audioSetup data s) =
        webcamRecorderRef s \<and>
      recordingState (startRecording displayMedia userMedia audioSetup data s) = recordingState s \<and>
      (recordingState s = idle \<longrightarrow>
         recordingState (startRecording displayMedia userMedia audioSetup data s) = idle)) \<and>
   (\<not> fst (sr_requestPermissions displayMedia userMedia t) \<longrightarrow>
      sr_startRecording displayMedia userMedia t = snd (sr_requestPermissions displayMedia userMedia t) \<and>
      filter recorder_call (effects (sr_startRecording displayMedia userMedia t)) =
        filter recorder_call (effects t) \<and>
      sr_screenRecorderRef (sr_startRecording displayMedia userMedia t) = sr_screenRecorderRef t \<and>
      sr_webcamRecorderRef (sr_startRecording displayMedia userMedia t) = sr_webcamRecorderRef t \<and>
      sr_recordingState (sr_startRecording displayMedia userMedia t) = sr_recordingState t \<and>
      (sr_recordingState t = sr_idle \<longrightarrow>
         sr_recordingState (sr_startRecording displayMedia userMedia t) = sr_idle))"
proof (intro conjI impI)
  assume d: "\<not> fst (requestPermissions displayMedia userMedia audioSetup s)"
  then show eq: "startRecording displayMedia userMedia audioSetup data s =
      snd (requestPermissions displayMedia userMedia audioSetup s)"
    by (cases "requestPermissions displayMedia userMedia audioSetup s") (simp add: startRecording_def)
  from d show "filter recorder_call (effects (startRecording displayMedia userMedia audioSetup data s)) =
      filter recorder_call (effects s)"
    unfolding eq
    by (auto simp: requestPermissions_def permission_denied_def Let_def
        split: option.splits if_splits)
  from d show "screenRecorderRef (startRecording displayMedia userMedia audioSetup data s) =
      screenRecorderRef s"
    unfolding eq
    by (auto simp: requestPermissions_def permission_denied_def Let_def emit_def
        split: option.splits if_splits)
  from d show "webcamRecorderRef (startRecording displayMedia userMedia audioSetup data s) =
      webcamRecorderRef s"
    unfolding eq
    by (auto simp: requestPermissions_def permission_denied_def Let_def emit_def
        split: option.splits if_splits)
  from d show st: "recordingState (startRecording displayMedia userMedia audioSetup data s) =
      recordingState s"
    unfolding eq
    by (auto simp: requestPermissions_def permission_denied_def Let_def emit_def
        split: option.splits if_splits)
  assume "recordingState s = idle"
  with st show "recordingState (startRecording displayMedia userMedia audioSetup data s) = idle"
    by simp
next
  assume d: "\<not> fst (sr_requestPermissions displayMedia userMedia t)"
  then show eq: "sr_startRecording displayMedia userMedia t =
      snd (sr_requestPermissions displayMedia userMedia t)"
    by (cases "sr_requestPermissions displayMedia userMedia t") (simp add: sr_startRecording_def)
  from d show "filter recorder_call (effects (sr_startRecording displayMedia userMedia t)) =
      filter recorder_call (effects t)"
    unfolding eq
    by (auto simp: sr_requestPermissions_def permission_denied_def Let_def split: option.splits)
  from d show "sr_screenRecorderRef (sr_startRecording displayMedia userMedia t) = sr_screenRecorderRef t"
    unfolding eq
    by (auto simp: sr_requestPermissions_def permission_denied_def Let_def emit_def split: option.splits)
  from d show "sr_webcamRecorderRef (sr_startRecording displayMedia userMedia t) = sr_webcamRecorderRef t"
    unfolding eq
    by (auto simp: sr_requestPermissions_def permission_denied_def Let_def emit_def split: option.splits)
  from d show st: "sr_recordingState (sr_startRecording displayMedia userMedia t) = sr_recordingState t"
    unfolding eq
    by (auto simp: sr_requestPermissions_def permission_denied_def Let_def emit_def split: option.splits)
  assume "sr_recordingState t = sr_idle"
  with st show "sr_recordingState (sr_startRecording displayMedia userMedia t) = sr_idle" by simp
qed

theorem C5_no_recording_without_permission_witness:
  "\<not> fst (requestPermissions (Some (MediaStream [1, 2])) None True initial) \<and>
   recordingState initial = idle \<and>
   recordingState (startRecording (Some (MediaStream [1, 2])) None True [200, 3] initial) = idle \<and>
   filter recorder_call
     (effects (startRecording (Some (MediaStream [1, 2])) None True [200, 3] initial)) = [] \<and>
   \<not> fst (requestPermissions (Some (MediaStream [1, 2])) (Some (MediaStream [3, 4])) False initial) \<and>
   recordingState (startRecording (Some (MediaStream [1, 2])) (Some (MediaStream [3, 4])) False
     [200, 3] initial) = idle \<and>
   filter recorder_call
     (effects (startRecording (Some (MediaStream [1, 2])) (Some (MediaStream [3, 4])) False
        [200, 3] initial)) = [] \<and>
   \<not> fst (sr_requestPermissions (Some (MediaStream [1, 2])) None sr_initial) \<and>
   sr_recordingState sr_initial = sr_idle \<and>
   sr_recordingState (sr_startRecording (Some (MediaStream [1, 2])) None sr_initial) = sr_idle \<and>
   filter recorder_call (effects (sr_startRecording (Some (MediaStream [1, 2])) None sr_initial)) = []"
proof -
  have d: "\<not> fst (requestPermissions (Some (MediaStream [1, 2])) None True initial)"
    "\<not> fst (requestPermissions (Some (MediaStream [1, 2])) (Some (MediaStream [3, 4])) False initial)"
    "\<not> fst (sr_requestPermissions (Some (MediaStream [1, 2])) None sr_initial)"
    by (simp_all add: requestPermissions_def sr_requestPermissions_def Let_def)
  have i: "recordingState initial = idle" "effects initial = []"
    "sr_recordingState sr_initial = sr_idle" "effects sr_initial = []"
    by (simp_all add: initial_def sr_initial_def)
  show ?thesis
    using d i
      C5_no_recording_without_permission [where displayMedia = "Some (MediaStream [1, 2])"
        and userMedia = None and audioSetup = True and s = initial and t = sr_initial
        and data = "[200, 3]"]
      C5_no_recording_without_permission [where displayMedia = "Some (MediaStream [1, 2])"
        and userMedia = "Some (MediaStream [3, 4])" and audioSetup = False and s = initial
        and t = sr_initial and data = "[200, 3]"]
    by (simp add: requestPermissions_def sr_requestPermissions_def permission_denied_def emit_def
        Let_def)
qed

subsection \<open>The recorder lifecycle\<close>

text \<open>
  C1, as stated: every transition of the recording state is an arc of the cycle
  idle \<open>\<rightarrow>\<close> recording \<open>\<rightarrow>\<close> paused \<open>\<rightarrow>\<close> processing \<open>\<rightarrow>\<close> idle.
  It fails on the Resume button: from a paused recording, which offers Resume,
  \<open>resumeRecording\<close> goes back to recording, and that is no arc of the cycle.
\<close>

theorem C1_resume_leaves_cycle:
  "recordingState (pauseRecording started) = paused \<and>
   offered (recordingState (pauseRecording started)) Resume \<and>
   recordingState (click Resume None None True [] (pauseRecording started)) = recording \<and>
   \<not> cycle_arc paused recording"
  by (simp add: page_defs)

text \<open>
  C1, amended. The recording state is one of idle, recording, paused, processing. Of the
  buttons that the page offers, Start (offered when idle) takes idle \<open>\<rightarrow>\<close> recording
  when both captures are granted and the audio set-up completes, and otherwise leaves
  idle; Pause (offered when recording) takes recording \<open>\<rightarrow>\<close> paused and Resume (offered
  when paused) takes paused \<open>\<rightarrow>\<close> recording, when both recorder references are set,
  and otherwise leave the state; Stop does not change the state. \<open>combineVideos\<close>,
  which the stop handler of the screen recorder calls, sets processing, from recording
  as well as from paused; the stop handler of the combined recorder, once it forwards to
  the final recorder, leaves the state alone, and the stop handler of the final recorder
  sets idle. In the first recorder component \<open>stopRecording\<close> sets idle directly.
\<close>

theorem C1_lifecycle_transitions:
  "(recordingState s = idle \<or> recordingState s = recording \<or>
    recordingState s = paused \<or> recordingState s = processing) \<and>
   (offered (recordingState s) Start \<longrightarrow>
      recordingState (click Start displayMedia userMedia audioSetup data s) =
        (if displayMedia \<noteq> None \<and> userMedia \<noteq> None \<and> audioSetup then recording else idle)) \<and>
   (offered (recordingState s) Pause \<longrightarrow>
      recordingState (click Pause displayMedia userMedia audioSetup data s) =
        (if screenRecorderRef s \<noteq> None \<and> webcamRecorderRef s \<noteq> None then paused
         else recording)) \<and>
   (offered (recordingState s) Resume \<longrightarrow>
      recordingState (click Resume displayMedia userMedia audioSetup data s) =
        (if screenRecorderRef s \<noteq> None \<and> webcamRecorderRef s \<noteq> None then recording
         else paused)) \<and>
   recordingState (click Stop displayMedia userMedia audioSetup data s) = recordingState s \<and>
   recordingState (stopRecording s) = recordingState s \<and>
   recordingState (combineVideos q pos pc b1 b2 m ctx st s) = processing \<and>
   (recordingState s = recording \<or> recordingState s = paused \<longrightarrow>
      lifecycle_arc (recordingState s) (recordingState (screenRecorder_onstop q pos pc m ctx st s))) \<and>
   (combinedRecorder_onstop_handler s = Some StopFinal \<longrightarrow>
      recordingState (combinedRecorder_onstop s) = recordingState s) \<and>
   recordingState (finalRecorder_onstop s) = idle \<and>
   (recordingState s = processing \<longrightarrow>
      lifecycle_arc (recordingState s) (recordingState (finalRecorder_onstop s))) \<and>
   (sr_screenRecorderRef t \<noteq> None \<and> sr_webcamRecorderRef t \<noteq> None \<longrightarrow>
      sr_recordingState (sr_stopRecording m ctx st t) = sr_idle)"
proof (intro conjI impI)
  show "recordingState s = idle \<or> recordingState s = recording \<or>
      recordingState s = paused \<or> recordingState s = processing"
    by (cases "recordingState s") simp_all
next
  assume "offered (recordingState s) Start"
  then show "recordingState (click Start displayMedia userMedia audioSetup data s) =
      (if displayMedia \<noteq> None \<and> userMedia \<noteq> None \<and> audioSetup then recording else idle)"
    by (simp add: startRecording_state)
next
  assume "offered (recordingState s) Pause"
  then show "recordingState (click Pause displayMedia userMedia audioSetup data s) =
      (if screenRecorderRef s \<noteq> None \<and> webcamRecorderRef s \<noteq> None then paused else recording)"
    by (simp add: pauseRecording_def emit_def)
next
  assume "offered (recordingState s) Resume"
  then show "recordingState (click Resume displayMedia userMedia audioSetup data s) =
      (if screenRecorderRef s \<noteq> None \<and> webcamRecorderRef s \<noteq> None then recording else paused)"
    by (simp add: resumeRecording_def emit_def)
next
  show st: "recordingState (stopRecording s) = recordingState s"
    by (simp add: stopRecording_def stop_stream_effects cancel_frame_def cancelAnimationFrame_def
        emit_def Let_def split: option.splits)
  then show "recordingState (click Stop displayMedia userMedia audioSetup data s) = recordingState s"
    by simp
next
  show "recordingState (combineVideos q pos pc b1 b2 m ctx st s) = processing"
    by (rule combineVideos_state)
next
  assume "recordingState s = recording \<or> recordingState s = paused"
  then show "lifecycle_arc (recordingState s)
      (recordingState (screenRecorder_onstop q pos pc m ctx st s))"
    by (auto simp: screenRecorder_onstop_def combineVideos_state)
next
  assume "combinedRecorder_onstop_handler s = Some StopFinal"
  then show "recordingState (combinedRecorder_onstop s) = recordingState s"
    by (simp add: combinedRecorder_onstop_def emit_def)
next
  show f: "recordingState (finalRecorder_onstop s) = idle"
    by (simp add: finalRecorder_onstop_def Let_def)
  assume "recordingState s = processing"
  with f show "lifecycle_arc (recordingState s) (recordingState (finalRecorder_onstop s))"
    by simp
next
  assume "sr_screenRecorderRef t \<noteq> None \<and> sr_webcamRecorderRef t \<noteq> None"
  then show "sr_recordingState (sr_stopRecording m ctx st t) = sr_idle"
    by (simp add: sr_stopRecording_def Let_def sr_combineVideos_state stop_stream_effects emit_def)
qed

theorem C1_lifecycle_transitions_witness:
  "offered (recordingState initial) Start \<and>
   recordingState (click Start (Some (MediaStream [1, 2])) (Some (MediaStream [3, 4])) True
     [200, 3] initial) = recording \<and>
   offered (recordingState started) Pause \<and>
   recordingState (click Pause None None True [] started) = paused \<and>
   offered (recordingState (pauseRecording started)) Resume \<and>
   recordingState (click Resume None None True [] (pauseRecording started)) = recording \<and>
   lifecycle_arc paused (recordingState (screenRecorder_onstop Q1080p (5, 80) 17
       (Some ((1920, 1080), (640, 480))) True (False, False) (pauseRecording started))) \<and>
   combinedRecorder_onstop_handler compositing = Some StopFinal \<and>
   recordingState compositing = processing \<and>
   recordingState (combinedRecorder_onstop compositing) = processing \<and>
   lifecycle_arc processing (recordingState (finalRecorder_onstop compositing)) \<and>
   sr_screenRecorderRef sr_started \<noteq> None \<and> sr_webcamRecorderRef sr_started \<noteq> None \<and>
   sr_recordingState (sr_stopRecording None True (False, False) sr_started) = sr_idle"
proof -
  have i: "recordingState initial = idle" by (simp add: initial_def)
  have s: "recordingState started = recording" "screenRecorderRef started \<noteq> None"
    "webcamRecorderRef started \<noteq> None"
    by (simp_all add: page_defs)
  have p: "recordingState (pauseRecording started) = paused"
    "screenRecorderRef (pauseRecording started) \<noteq> None"
    "webcamRecorderRef (pauseRecording started) \<noteq> None"
    by (simp_all add: page_defs)
  have c: "combinedRecorder_onstop_handler compositing = Some StopFinal"
    "recordingState compositing = processing"
    by (simp_all add: page_defs)
  have r: "sr_screenRecorderRef sr_started \<noteq> None" "sr_webcamRecorderRef sr_started \<noteq> None"
    by (simp_all add: sr_defs)
  show ?thesis
    using i s p c r
      C1_lifecycle_transitions [where s = initial and displayMedia = "Some (MediaStream [1, 2])"
        and userMedia = "Some (MediaStream [3, 4])" and audioSetup = True and data = "[200, 3]"
        and q = Q1080p and pos = "(5, 80)" and pc = 17 and m = None and ctx = True
        and st = "(False, False)" and t = sr_started
        and ?b1.0 = "Blob [1] ''video/webm''" and ?b2.0 = "Blob [2] ''video/webm''"]
      C1_lifecycle_transitions [where s = started and displayMedia = None
        and userMedia = None and audioSetup = True and data = "[]"
        and q = Q1080p and pos = "(5, 80)" and pc = 17 and m = None and ctx = True
        and st = "(False, False)" and t = sr_started
        and ?b1.0 = "Blob [1] ''video/webm''" and ?b2.0 = "Blob [2] ''video/webm''"]
      C1_lifecycle_transitions [where s = "pauseRecording started" and displayMedia = None
        and userMedia = None and audioSetup = True and data = "[]" and q = Q1080p
        and pos = "(5, 80)" and pc = 17 and m = "Some ((1920, 1080), (640, 480))"
        and ctx = True and st = "(False, False)" and t = sr_started
        and ?b1.0 = "Blob [1] ''video/webm''" and ?b2.0 = "Blob [2] ''video/webm''"]
      C1_lifecycle_transitions [where s = compositing and displayMedia = None
        and userMedia = None and audioSetup = True and data = "[]" and q = Q1080p
        and pos = "(5, 80)" and pc = 17 and m = None
        and ctx = True and st = "(False, False)" and t = sr_started
        and ?b1.0 = "Blob [1] ''video/webm''" and ?b2.0 = "Blob [2] ''video/webm''"]
    by auto
qed

subsection \<open>The compositing loop\<close>

text \<open>
  C3, as stated, ends: the stop handler of the combined recorder re-encodes the chunks
  that recorder accumulated into the exposed combined recording URL. On the page it
  does not. When the loop stops (here at the first animation frame, the screen video
  having ended) the combined recorder holds chunk 7 and the final recorder chunk 8; the
  stop handler of the combined recorder exposes no URL, and the URL that is exposed in
  the end encodes chunk 8.
\<close>

theorem C3_page_handler_forwards:
  "combinedChunks (animation_frames [(False, True)]
      (finalRecorder_ondataavailable 8 (combinedRecorder_ondataavailable 7 compositing))) = [7] \<and>
   last (effects (animation_frames [(False, True)]
      (finalRecorder_ondataavailable 8 (combinedRecorder_ondataavailable 7 compositing)))) =
     RecorderStop CombinedRecorder \<and>
   combinedRecordingUrl (combinedRecorder_onstop (animation_frames [(False, True)]
      (finalRecorder_ondataavailable 8 (combinedRecorder_ondataavailable 7 compositing)))) = None \<and>
   combinedRecordingUrl (finalRecorder_onstop (combinedRecorder_onstop (animation_frames [(False, True)]
      (finalRecorder_ondataavailable 8 (combinedRecorder_ondataavailable 7 compositing))))) =
     Some (ObjectURL (Blob [8] ''video/webm''))"
  by (simp add: page_defs)

text \<open>
  C3, amended. While one \<open>drawFrame\<close> callback is pending, the animation frames produce
  the trace of the specification: each iteration draws the screen frame over the whole
  canvas and then the webcam frame in its rectangle, the loop repeats while the screen
  video is neither paused nor ended, and exactly when it stops looping (no \<open>drawFrame\<close>
  is pending any more) it has stopped the combined recorder. In the two recorder
  components the stop handler of the combined recorder encodes the chunks that recorder
  accumulated into the exposed URL. On the page that handler, as \<open>combineVideos\<close> leaves
  it, stops the final recorder and nothing else; the stop handler of the final recorder
  encodes the chunks of the final recorder into the exposed URL and sets the state idle.
\<close>

theorem C3_compositing_loop:
  assumes "filter is_draw (pendingFrames w) = [(n, DrawFrame W H dx dy dw dh)]"
  shows "effects (animation_frames sts w) =
           effects w @ loop_trace W H dx dy dw dh sts (lastFrameId w) \<and>
         (RecorderStop CombinedRecorder \<in> set (loop_trace W H dx dy dw dh sts (lastFrameId w))
            \<longleftrightarrow> \<not> list_all playing sts) \<and>
         (filter is_draw (pendingFrames (animation_frames sts w)) = []
            \<longleftrightarrow> \<not> list_all playing sts) \<and>
         sr_combinedRecorder_onstop t =
           t\<lparr>effects := effects t @ [CreateObjectURL (Blob (sr_combinedChunks t) ''video/webm'')],
             sr_combinedRecordingUrl := Some (ObjectURL (Blob (sr_combinedChunks t) ''video/webm''))\<rparr> \<and>
         p0_combinedRecorder_onstop u =
           u\<lparr>effects := effects u @ [CreateObjectURL (Blob (p0_combinedChunks u) ''video/webm'')],
             p0_combinedRecordingUrl := Some (ObjectURL (Blob (p0_combinedChunks u) ''video/webm''))\<rparr> \<and>
         combinedRecorder_onstop_handler
           (combineVideos q pos pc b1 b2 (Some m) True st s) = Some StopFinal \<and>
         (combinedRecorder_onstop_handler s = Some StopFinal \<longrightarrow>
            combinedRecorder_onstop s = s\<lparr>effects := effects s @ [RecorderStop FinalRecorder]\<rparr>) \<and>
         finalRecorder_onstop s =
           s\<lparr>effects := effects s @ [CreateObjectURL (Blob (finalChunks s) ''video/webm'')],
             combinedRecordingUrl := Some (ObjectURL (Blob (finalChunks s) ''video/webm'')),
             recordingState := idle\<rparr>"
proof (intro conjI impI)
  show "effects (animation_frames sts w) =
      effects w @ loop_trace W H dx dy dw dh sts (lastFrameId w)"
    by (rule animation_frames_trace [OF assms])
next
  show "RecorderStop CombinedRecorder \<in> set (loop_trace W H dx dy dw dh sts (lastFrameId w))
      \<longleftrightarrow> \<not> list_all playing sts"
    by (rule loop_trace_stop)
next
  show "filter is_draw (pendingFrames (animation_frames sts w)) = [] \<longleftrightarrow> \<not> list_all playing sts"
    by (simp add: animation_frames_pending [OF assms])
next
  show "sr_combinedRecorder_onstop t =
      t\<lparr>effects := effects t @ [CreateObjectURL (Blob (sr_combinedChunks t) ''video/webm'')],
        sr_combinedRecordingUrl := Some (ObjectURL (Blob (sr_combinedChunks t) ''video/webm''))\<rparr>"
    by (simp add: sr_combinedRecorder_onstop_def Let_def emit_def)
next
  show "p0_combinedRecorder_onstop u =
      u\<lparr>effects := effects u @ [CreateObjectURL (Blob (p0_combinedChunks u) ''video/webm'')],
        p0_combinedRecordingUrl := Some (ObjectURL (Blob (p0_combinedChunks u) ''video/webm''))\<rparr>"
    by (simp add: p0_combinedRecorder_onstop_def Let_def emit_def)
next
  show "combinedRecorder_onstop_handler (combineVideos q pos pc b1 b2 (Some m) True st s) =
      Some StopFinal"
    by (cases m) (simp add: combineVideos_def Let_def split: prod.splits)
next
  assume "combinedRecorder_onstop_handler s = Some StopFinal"
  then show "combinedRecorder_onstop s = s\<lparr>effects := effects s @ [RecorderStop FinalRecorder]\<rparr>"
    by (simp add: combinedRecorder_onstop_def emit_def)
next
  show "finalRecorder_onstop s =
      s\<lparr>effects := effects s @ [CreateObjectURL (Blob (finalChunks s) ''video/webm'')],
        combinedRecordingUrl := Some (ObjectURL (Blob (finalChunks s) ''video/webm'')),
        recordingState := idle\<rparr>"
    by (simp add: finalRecorder_onstop_def Let_def emit_def)
qed

theorem C3_compositing_loop_witness:
  "filter is_draw (pendingFrames sr_compositing) =
     [(1, DrawFrame 1920 1080 (Fin 1640) (Fin 800) (Fin 270) (Fin 270))] \<and>
   effects (animation_frames [(False, False), (True, False), (False, False)] sr_compositing) =
     effects sr_compositing @
       [DrawImage ScreenVideo (Fin 0) (Fin 0) (Fin 1920) (Fin 1080),
        DrawImage WebcamVideo (Fin 1640) (Fin 800) (Fin 270) (Fin 270),
        RequestAnimationFrame 2 (DrawFrame 1920 1080 (Fin 1640) (Fin 800) (Fin 270) (Fin 270)),
        DrawImage ScreenVideo (Fin 0) (Fin 0) (Fin 1920) (Fin 1080),
        DrawImage WebcamVideo (Fin 1640) (Fin 800) (Fin 270) (Fin 270),
        RecorderStop CombinedRecorder] \<and>
   filter is_draw (pendingFrames
       (animation_frames [(False, False), (True, False), (False, False)] sr_compositing)) = [] \<and>
   combinedRecorder_onstop_handler compositing = Some StopFinal \<and>
   combinedRecorder_onstop compositing =
     compositing\<lparr>effects := effects compositing @ [RecorderStop FinalRecorder]\<rparr>"
proof -
  have p: "filter is_draw (pendingFrames sr_compositing) =
      [(1, DrawFrame 1920 1080 (Fin 1640) (Fin 800) (Fin 270) (Fin 270))]"
    "lastFrameId sr_compositing = 1"
    by (simp_all add: sr_defs)
  have h: "combinedRecorder_onstop_handler compositing = Some StopFinal"
    by (simp add: page_defs)
  show ?thesis
    using p h
      C3_compositing_loop [OF p(1), where sts = "[(False, False), (True, False), (False, False)]"
        and s = compositing]
    by simp
qed

subsection \<open>The guard of the combining step\<close>

text \<open>
  C4, as stated: a call of \<open>combineVideos\<close> in which a recording is missing returns
  immediately and changes no state. The page has no such check. Its \<open>combineVideos\<close> is
  handed the blobs of the two chunk arrays as they are when the screen recorder stops;
  here the webcam recorder has delivered no chunk yet, the webcam blob is empty, and the
  call creates the two video elements and sets the state to processing.
\<close>

theorem C4_page_combines_empty_blob:
  "webcamChunks (screenRecorder_ondataavailable 1 (stopRecording started)) = [] \<and>
   recordingState (screenRecorder_ondataavailable 1 (stopRecording started)) = recording \<and>
   screenRecorder_onstop Q1080p (5, 80) 17 None True (False, False)
       (screenRecorder_ondataavailable 1 (stopRecording started)) =
     (screenRecorder_ondataavailable 1 (stopRecording started))
       \<lparr>effects := effects (screenRecorder_ondataavailable 1 (stopRecording started)) @
          [CreateElement ''video'', CreateElement ''video'',
           CreateObjectURL (Blob [1] ''video/webm''), CreateObjectURL (Blob [] ''video/webm'')],
        recordingState := processing\<rparr>"
  by (simp add: page_defs)

text \<open>
  C4, amended. In the two recorder components, a call of \<open>combineVideos\<close> in which the
  URL of the screen recording or of the webcam recording is null returns immediately:
  no element is created, no recorder is started, and the state, log included, is as it
  was. The \<open>combineVideos\<close> of the page takes the two blobs as arguments and checks
  neither: whatever they hold, it sets the state to processing.
\<close>

theorem C4_combine_guard:
  "(sr_screenRecordingUrl t = None \<or> sr_webcamRecordingUrl t = None \<longrightarrow>
      sr_combineVideos m ctx st t = t) \<and>
   (p0_screenRecordingUrl u = None \<or> p0_webcamRecordingUrl u = None \<longrightarrow>
      p0_combineVideos m ctx st u = u) \<and>
   recordingState (combineVideos q pos pc b1 b2 m ctx st s) = processing"
  by (simp add: sr_combineVideos_def p0_combineVideos_def combineVideos_state)

theorem C4_combine_guard_witness:
  "sr_webcamRecordingUrl (sr_screenRecorder_ondataavailable 1 sr_started) = None \<and>
   sr_combineVideos (Some ((1920, 1080), (640, 480))) True (False, False)
       (sr_screenRecorder_ondataavailable 1 sr_started) =
     sr_screenRecorder_ondataavailable 1 sr_started \<and>
   p0_screenRecordingUrl p0_initial = None \<and>
   p0_combineVideos (Some ((1920, 1080), (640, 480))) True (False, False) p0_initial = p0_initial"
proof -
  have n: "sr_webcamRecordingUrl (sr_screenRecorder_ondataavailable 1 sr_started) = None"
    "p0_screenRecordingUrl p0_initial = None"
    by (simp_all add: sr_defs p0_initial_def)
  show ?thesis
    using n C4_combine_guard [where t = "sr_screenRecorder_ondataavailable 1 sr_started"
        and u = p0_initial and m = "Some ((1920, 1080), (640, 480))" and ctx = True
        and st = "(False, False)"]
    by simp
qed

subsection \<open>Failure paths\<close>

text \<open>
  C6, as stated: permission denial is the only failure on which the program notifies
  the user, and on every failure path the rest of the state is left as it was. On the
  page neither holds. When both captures are granted and the audio set-up then throws,
  the same "Permission denied" notification is shown, and the two stream references
  have already been written. And \<open>combineVideos\<close> sets the recording state to processing
  before it asks for the canvas context, so a recording that was stopped while recording
  is left processing when the context is missing.
\<close>

theorem C6_page_failures_change_state:
  "fst (requestPermissions (Some (MediaStream [1, 2])) (Some (MediaStream [3, 4])) False initial)
     = False \<and>
   filter is_toast (effects (snd (requestPermissions (Some (MediaStream [1, 2]))
       (Some (MediaStream [3, 4])) False initial))) =
     [Toast ''Permission denied''
        ''Please allow access to your screen and webcam to start recording.''
        (Some ''destructive'')] \<and>
   screenStreamRef initial = None \<and>
   screenStreamRef (snd (requestPermissions (Some (MediaStream [1, 2]))
       (Some (MediaStream [3, 4])) False initial)) = Some (MediaStream [1, 2]) \<and>
   recordingState stopped = recording \<and>
   recordingState (screenRecorder_onstop Q1080p (5, 80) 17 (Some ((1920, 1080), (640, 480)))
       False (False, False) stopped) = processing"
  by (simp add: page_defs)

text \<open>
  C6, amended. The program notifies the user of a failure in one place, the \<open>catch\<close> of
  \<open>requestPermissions\<close>, with the one notification "Permission denied": when a capture
  request is rejected, and also when the audio set-up throws after both grants. On a
  rejected request it logs the error, shows the notification and changes nothing
  else; on a throw of the audio set-up the stream references and the preview sources
  that it had already written stay written, and nothing else changes. In both cases
  \<open>startRecording\<close> then returns, with no second request and no other action. When no
  canvas context is obtained, \<open>combineVideos\<close> logs the error to the console, shows no
  notification, starts nothing, and leaves every part of the state other than the
  recording state as it was (in the two recorder components the whole state).
\<close>

theorem C6_failure_paths:
  "requestPermissions None userMedia audioSetup s =
     (False, s\<lparr>effects := effects s @
        [GetDisplayMedia (Some (videoQualities (videoQuality s))),
         ConsoleError ''Error requesting permissions:'',
         Toast ''Permission denied''
           ''Please allow access to your screen and webcam to start recording.''
           (Some ''destructive'')]\<rparr>) \<and>
   requestPermissions (Some screenStream) None audioSetup s =
     (False, s\<lparr>effects := effects s @
        [GetDisplayMedia (Some (videoQualities (videoQuality s))),
         GetUserMedia (Some (videoQualities (videoQuality s))),
         ConsoleError ''Error requesting permissions:'',
         Toast ''Permission denied''
           ''Please allow access to your screen and webcam to start recording.''
           (Some ''destructive'')]\<rparr>) \<and>
   requestPermissions (Some screenStream) (Some webcamStream) False s =
     (False, s\<lparr>effects := effects s @
        [GetDisplayMedia (Some (videoQualities (videoQuality s))),
         GetUserMedia (Some (videoQualities (videoQuality s))),
         ConsoleError ''Error requesting permissions:'',
         Toast ''Permission denied''
           ''Please allow access to your screen and webcam to start recording.''
           (Some ''destructive'')],
        screenStreamRef := Some screenStream,
        webcamStreamRef := Some webcamStream,
        screenVideoRef := set_srcObject screenStream (screenVideoRef s),
        webcamVideoRef := set_srcObject webcamStream (webcamVideoRef s)\<rparr>) \<and>
   (fst (requestPermissions displayMedia userMedia audioSetup s) \<longleftrightarrow>
      displayMedia \<noteq> None \<and> userMedia \<noteq> None \<and> audioSetup) \<and>
   (\<not> fst (requestPermissions displayMedia userMedia audioSetup s) \<longrightarrow>
      startRecording displayMedia userMedia audioSetup data s =
        snd (requestPermissions displayMedia userMedia audioSetup s)) \<and>
   (combineVideos q pos pc b1 b2 (Some m) False st s)\<lparr>recordingState := recordingState s\<rparr> =
     s\<lparr>effects := effects s @
        [CreateElement ''video'', CreateElement ''video'', CreateObjectURL b1, CreateObjectURL b2,
         CreateElement ''canvas'', ConsoleError ''Unable to create canvas context'']\<rparr> \<and>
   filter is_toast (effects (combineVideos q pos pc b1 b2 (Some m) False st s)) =
     filter is_toast (effects s) \<and>
   sr_requestPermissions None userMedia t =
     (False, t\<lparr>effects := effects t @
        [GetDisplayMedia None,
         ConsoleError ''Error requesting permissions:'',
         Toast ''Permission denied''
           ''Please allow access to your screen and webcam to start recording.''
           (Some ''destructive'')]\<rparr>) \<and>
   sr_requestPermissions (Some screenStream) None t =
     (False, t\<lparr>effects := effects t @
        [GetDisplayMedia None, GetUserMedia None,
         ConsoleError ''Error requesting permissions:'',
         Toast ''Permission denied''
           ''Please allow access to your screen and webcam to start recording.''
           (Some ''destructive'')]\<rparr>) \<and>
   (fst (sr_requestPermissions displayMedia userMedia t) \<longleftrightarrow>
      displayMedia \<noteq> None \<and> userMedia \<noteq> None) \<and>
   (\<not> fst (sr_requestPermissions displayMedia userMedia t) \<longrightarrow>
      sr_startRecording displayMedia userMedia t =
        snd (sr_requestPermissions displayMedia userMedia t)) \<and>
   (sr_screenRecordingUrl t \<noteq> None \<and> sr_webcamRecordingUrl t \<noteq> None \<longrightarrow>
      sr_combineVideos (Some m) False st t =
        t\<lparr>effects := effects t @
           [CreateElement ''video'', CreateElement ''video'', CreateElement ''canvas'',
            ConsoleError ''Unable to create canvas context'']\<rparr>) \<and>
   (p0_screenRecordingUrl u \<noteq> None \<and> p0_webcamRecordingUrl u \<noteq> None \<longrightarrow>
      p0_combineVideos (Some m) False st u =
        u\<lparr>effects := effects u @
           [CreateElement ''video'', CreateElement ''video'', CreateElement ''canvas'',
            ConsoleError ''Unable to create canvas context'']\<rparr>)"
proof (intro conjI impI)
  show "requestPermissions None userMedia audioSetup s =
     (False, s\<lparr>effects := effects s @
        [GetDisplayMedia (Some (videoQualities (videoQuality s))),
         ConsoleError ''Error requesting permissions:'',
         Toast ''Permission denied''
           ''Please allow access to your screen and webcam to start recording.''
           (Some ''destructive'')]\<rparr>)"
    by (simp add: requestPermissions_def permission_denied_def emit_def)
next
  show "requestPermissions (Some screenStream) None audioSetup s =
     (False, s\<lparr>effects := effects s @
        [GetDisplayMedia (Some (videoQualities (videoQuality s))),
         GetUserMedia (Some (videoQualities (videoQuality s))),
         ConsoleError ''Error requesting permissions:'',
         Toast ''Permission denied''
           ''Please allow access to your screen and webcam to start recording.''
           (Some ''destructive'')]\<rparr>)"
    by (simp add: requestPermissions_def permission_denied_def emit_def)
next
  show "requestPermissions (Some screenStream) (Some webcamStream) False s =
     (False, s\<lparr>effects := effects s @
        [GetDisplayMedia (Some (videoQualities (videoQuality s))),
         GetUserMedia (Some (videoQualities (videoQuality s))),
         ConsoleError ''Error requesting permissions:'',
         Toast ''Permission denied''
           ''Please allow access to your screen and webcam to start recording.''
           (Some ''destructive'')],
        screenStreamRef := Some screenStream,
        webcamStreamRef := Some webcamStream,
        screenVideoRef := set_srcObject screenStream (screenVideoRef s),
        webcamVideoRef := set_srcObject webcamStream (webcamVideoRef s)\<rparr>)"
    by (simp add: requestPermissions_def permission_denied_def emit_def)
next
  show "fst (requestPermissions displayMedia userMedia audioSetup s) \<longleftrightarrow>
      displayMedia \<noteq> None \<and> userMedia \<noteq> None \<and> audioSetup"
    by (auto simp: requestPermissions_def Let_def split: option.splits)
next
  assume "\<not> fst (requestPermissions displayMedia userMedia audioSetup s)"
  then show "startRecording displayMedia userMedia audioSetup data s =
      snd (requestPermissions displayMedia userMedia audioSetup s)"
    by (cases "requestPermissions displayMedia userMedia audioSetup s") (simp add: startRecording_def)
next
  show "(combineVideos q pos pc b1 b2 (Some m) False st s)\<lparr>recordingState := recordingState s\<rparr> =
     s\<lparr>effects := effects s @
        [CreateElement ''video'', CreateElement ''video'', CreateObjectURL b1, CreateObjectURL b2,
         CreateElement ''canvas'', ConsoleError ''Unable to create canvas context'']\<rparr>"
    by (simp add: combineVideos_no_context)
next
  show "filter is_toast (effects (combineVideos q pos pc b1 b2 (Some m) False st s)) =
      filter is_toast (effects s)"
    by (simp add: combineVideos_no_context)
next
  show "sr_requestPermissions None userMedia t =
     (False, t\<lparr>effects := effects t @
        [GetDisplayMedia None,
         ConsoleError ''Error requesting permissions:'',
         Toast ''Permission denied''
           ''Please allow access to your screen and webcam to start recording.''
           (Some ''destructive'')]\<rparr>)"
    by (simp add: sr_requestPermissions_def permission_denied_def emit_def)
next
  show "sr_requestPermissions (Some screenStream) None t =
     (False, t\<lparr>effects := effects t @
        [GetDisplayMedia None, GetUserMedia None,
         ConsoleError ''Error requesting permissions:'',
         Toast ''Permission denied''
           ''Please allow access to your screen and webcam to start recording.''
           (Some ''destructive'')]\<rparr>)"
    by (simp add: sr_requestPermissions_def permission_denied_def emit_def)
next
  show "fst (sr_requestPermissions displayMedia userMedia t) \<longleftrightarrow>
      displayMedia \<noteq> None \<and> userMedia \<noteq> None"
    by (auto simp: sr_requestPermissions_def Let_def split: option.splits)
next
  assume "\<not> fst (sr_requestPermissions displayMedia userMedia t)"
  then show "sr_startRecording displayMedia userMedia t =
      snd (sr_requestPermissions displayMedia userMedia t)"
    by (cases "sr_requestPermissions displayMedia userMedia t") (simp add: sr_startRecording_def)
next
  assume "sr_screenRecordingUrl t \<noteq> None \<and> sr_webcamRecordingUrl t \<noteq> None"
  then show "sr_combineVideos (Some m) False st t =
      t\<lparr>effects := effects t @
         [CreateElement ''video'', CreateElement ''video'', CreateElement ''canvas'',
          ConsoleError ''Unable to create canvas context'']\<rparr>"
    by (cases m) (auto simp: sr_combineVideos_def Let_def emit_def split: prod.splits)
next
  assume "p0_screenRecordingUrl u \<noteq> None \<and> p0_webcamRecordingUrl u \<noteq> None"
  then show "p0_combineVideos (Some m) False st u =
      u\<lparr>effects := effects u @
         [CreateElement ''video'', CreateElement ''video'', CreateElement ''canvas'',
          ConsoleError ''Unable to create canvas context'']\<rparr>"
    by (cases m) (auto simp: p0_combineVideos_def Let_def emit_def split: prod.splits)
qed

theorem C6_failure_paths_witness:
  "startRecording None (Some (MediaStream [3, 4])) True [200, 3] initial =
     initial\<lparr>effects :=
        [GetDisplayMedia (Some (1920, 1080)),
         ConsoleError ''Error requesting permissions:'',
         Toast ''Permission denied''
           ''Please allow access to your screen and webcam to start recording.''
           (Some ''destructive'')]\<rparr> \<and>
   startRecording (Some (MediaStream [1, 2])) (Some (MediaStream [3, 4])) False [200, 3] initial =
     initial\<lparr>effects :=
        [GetDisplayMedia (Some (1920, 1080)), GetUserMedia (Some (1920, 1080)),
         ConsoleError ''Error requesting permissions:'',
         Toast ''Permission denied''
           ''Please allow access to your screen and webcam to start recording.''
           (Some ''destructive'')],
        screenStreamRef := Some (MediaStream [1, 2]),
        webcamStreamRef := Some (MediaStream [3, 4])\<rparr> \<and>
   filter is_toast (effects (combineVideos Q1080p (5, 80) 17 (Blob [1] ''video/webm'')
       (Blob [2] ''video/webm'') (Some ((1920, 1080), (640, 480))) False (False, False) initial)) = [] \<and>
   sr_screenRecordingUrl (sr_webcamRecorder_ondataavailable 2
       (sr_screenRecorder_ondataavailable 1 sr_started)) \<noteq> None \<and>
   sr_webcamRecordingUrl (sr_webcamRecorder_ondataavailable 2
       (sr_screenRecorder_ondataavailable 1 sr_started)) \<noteq> None \<and>
   effects (sr_combineVideos (Some ((1920, 1080), (640, 480))) False (False, False)
       (sr_webcamRecorder_ondataavailable 2 (sr_screenRecorder_ondataavailable 1 sr_started))) =
     effects (sr_webcamRecorder_ondataavailable 2 (sr_screenRecorder_ondataavailable 1 sr_started)) @
       [CreateElement ''video'', CreateElement ''video'', CreateElement ''canvas'',
        ConsoleError ''Unable to create canvas context'']"
proof -
  have u: "sr_screenRecordingUrl (sr_webcamRecorder_ondataavailable 2
        (sr_screenRecorder_ondataavailable 1 sr_started)) \<noteq> None"
    "sr_webcamRecordingUrl (sr_webcamRecorder_ondataavailable 2
        (sr_screenRecorder_ondataavailable 1 sr_started)) \<noteq> None"
    by (simp_all add: sr_defs)
  have i: "effects initial = []" "videoQuality initial = Q1080p"
    "screenVideoRef initial = None" "webcamVideoRef initial = None"
    by (simp_all add: initial_def)
  show ?thesis
    using u i
      C6_failure_paths [where s = initial and displayMedia = None
        and userMedia = "Some (MediaStream [3, 4])" and audioSetup = True
        and data = "[200, 3]" and q = Q1080p and pos = "(5, 80)" and pc = 17
        and ?b1.0 = "Blob [1] ''video/webm''" and ?b2.0 = "Blob [2] ''video/webm''"
        and m = "((1920, 1080), (640, 480))" and st = "(False, False)"
        and t = "sr_webcamRecorder_ondataavailable 2 (sr_screenRecorder_ondataavailable 1 sr_started)"
        and u = p0_initial and screenStream = "MediaStream [1, 2]"
        and webcamStream = "MediaStream [3, 4]"]
      C6_failure_paths [where s = initial and displayMedia = "Some (MediaStream [1, 2])"
        and userMedia = "Some (MediaStream [3, 4])" and audioSetup = False
        and data = "[200, 3]" and q = Q1080p and pos = "(5, 80)" and pc = 17
        and ?b1.0 = "Blob [1] ''video/webm''" and ?b2.0 = "Blob [2] ''video/webm''"
        and m = "((1920, 1080), (640, 480))" and st = "(False, False)"
        and t = "sr_webcamRecorder_ondataavailable 2 (sr_screenRecorder_ondataavailable 1 sr_started)"
        and u = p0_initial and screenStream = "MediaStream [1, 2]"
        and webcamStream = "MediaStream [3, 4]"]
    by (simp add: set_srcObject_def)
qed

subsection \<open>Teardown\<close>

text \<open>
  C7, as stated: on teardown any pending redraw callback is cancelled. The redraw
  callback of the compositing loop is not. The first recorder component cancels nothing
  at all, and the page cancels the handle that \<open>animationFrameRef\<close> holds, which is the
  one of the voice check; \<open>drawFrame\<close> is requested without keeping its handle. In both
  components, unmounted while they composite, the \<open>drawFrame\<close> callback is pending
  before the cleanup and after it.
\<close>

theorem C7_cleanup_leaves_drawFrame_pending:
  "filter is_draw (pendingFrames sr_compositing) =
     [(1, DrawFrame 1920 1080 (Fin 1640) (Fin 800) (Fin 270) (Fin 270))] \<and>
   filter is_draw (pendingFrames (sr_cleanup sr_compositing)) =
     [(1, DrawFrame 1920 1080 (Fin 1640) (Fin 800) (Fin 270) (Fin 270))] \<and>
   filter is_draw (pendingFrames compositing) =
     [(2, DrawFrame 1920 1080 (Fin (1401745384019067 / 17592186044416))
            (Fin (2938598756859249 / 4398046511104)) (Fin (5742089524897383 / 17592186044416))
            (Fin (4306567143673037 / 17592186044416)))] \<and>
   filter is_draw (pendingFrames (cleanup compositing)) =
     [(2, DrawFrame 1920 1080 (Fin (1401745384019067 / 17592186044416))
            (Fin (2938598756859249 / 4398046511104)) (Fin (5742089524897383 / 17592186044416))
            (Fin (4306567143673037 / 17592186044416)))]"
  by (simp add: page_defs sr_defs stopTracks_effects webcam_rect_1080p)

text \<open>
  C7, amended. On teardown every track of the captured screen stream and then every
  track of the captured webcam stream is stopped (of the streams whose reference is
  set). The page then cancels the animation-frame callback whose handle
  \<open>animationFrameRef\<close> holds, if it holds one: that is the latest request of the voice
  check, and a callback with another handle stays pending. The first recorder component
  cancels no callback. The cleanup does nothing else.
\<close>

theorem C7_cleanup_effects:
  "(animationFrameRef s = None \<or> animationFrameRef s = Some 0 \<longrightarrow>
      cleanup s =
        s\<lparr>effects := effects s @ map TrackStop (tracks_of (screenStreamRef s)) @
                      map TrackStop (tracks_of (webcamStreamRef s))\<rparr>) \<and>
   (animationFrameRef s = Some handle \<and> handle \<noteq> 0 \<longrightarrow>
      cleanup s =
        s\<lparr>effects := effects s @ map TrackStop (tracks_of (screenStreamRef s)) @
                      map TrackStop (tracks_of (webcamStreamRef s)) @
                      [CancelAnimationFrame handle],
          pendingFrames := filter (\<lambda>p. fst p \<noteq> handle) (pendingFrames s)\<rparr>) \<and>
   sr_cleanup t =
     t\<lparr>effects := effects t @ map TrackStop (tracks_of (sr_screenStreamRef t)) @
                   map TrackStop (tracks_of (sr_webcamStreamRef t))\<rparr>"
  by (auto simp: cleanup_def sr_cleanup_def Let_def stop_stream_effects cancel_frame_def
      cancelAnimationFrame_def emit_def)

theorem C7_cleanup_effects_witness:
  "animationFrameRef started = Some 1 \<and>
   pendingFrames started = [(1, CheckAudio)] \<and>
   cleanup started =
     started\<lparr>effects := effects started @
                [TrackStop 1, TrackStop 2, TrackStop 3, TrackStop 4, CancelAnimationFrame 1],
             pendingFrames := []\<rparr> \<and>
   animationFrameRef initial = None \<and> cleanup initial = initial \<and>
   sr_cleanup sr_started =
     sr_started\<lparr>effects := effects sr_started @
                   [TrackStop 1, TrackStop 2, TrackStop 3, TrackStop 4]\<rparr>"
proof -
  have a: "animationFrameRef started = Some 1" "pendingFrames started = [(1, CheckAudio)]"
    "screenStreamRef started = Some (MediaStream [1, 2])"
    "webcamStreamRef started = Some (MediaStream [3, 4])"
    by (simp_all add: page_defs)
  have b: "animationFrameRef initial = None" "screenStreamRef initial = None"
    "webcamStreamRef initial = None"
    by (simp_all add: initial_def)
  have c: "sr_screenStreamRef sr_started = Some (MediaStream [1, 2])"
    "sr_webcamStreamRef sr_started = Some (MediaStream [3, 4])"
    by (simp_all add: sr_defs)
  show ?thesis
    using a b c
      C7_cleanup_effects [where s = started and handle = 1 and t = sr_started]
      C7_cleanup_effects [where s = initial and handle = 1 and t = sr_started]
    by (simp add: tracks_of_def)
qed

subsection \<open>Audio\<close>

text \<open>
  C8, as stated: the combining step never combines more than one audio source into
  the audio track of the final recording. The page combines two: the audio of the
  screen recording and the audio of the webcam recording are both connected to the
  destination node whose audio track the final recorder records.
\<close>

theorem C8_page_mixes_two_sources:
  "destination_inputs (effects compositing) =
     [MediaElementSource ScreenVideo, MediaElementSource WebcamVideo] \<and>
   length (destination_inputs (effects compositing)) = 2 \<and>
   NewMediaRecorder (MediaRecorder FinalRecorder CanvasVideoWithDestinationAudio
       (Some ''video/webm; codecs=vp9'')) \<in> set (effects compositing)"
  by (simp add: page_defs)

text \<open>
  C8, amended. The combining step of the page connects exactly two audio sources, the
  screen recording and the webcam recording, straight to one destination node, with no
  other node in between, and the final recorder records the audio track of that node
  with the video track of the canvas. The combining steps of the two recorder components
  connect no audio at all.
\<close>

theorem C8_audio_of_final_recording:
  "destination_inputs (effects (combineVideos q pos pc b1 b2 (Some (sd, (vw, vh))) True st s)) =
     destination_inputs (effects s) @
       [MediaElementSource ScreenVideo, MediaElementSource WebcamVideo] \<and>
   NewMediaRecorder (MediaRecorder FinalRecorder CanvasVideoWithDestinationAudio
       (Some ''video/webm; codecs=vp9''))
     \<in> set (effects (combineVideos q pos pc b1 b2 (Some (sd, (vw, vh))) True st s)) \<and>
   destination_inputs (effects (sr_combineVideos m ctx st t)) = destination_inputs (effects t) \<and>
   destination_inputs (effects (p0_combineVideos m ctx st u)) = destination_inputs (effects u)"
proof (intro conjI)
  show "destination_inputs (effects (combineVideos q pos pc b1 b2 (Some (sd, (vw, vh))) True st s)) =
      destination_inputs (effects s) @
        [MediaElementSource ScreenVideo, MediaElementSource WebcamVideo]"
    by (cases st) (simp add: combineVideos_effects)
next
  show "NewMediaRecorder (MediaRecorder FinalRecorder CanvasVideoWithDestinationAudio
        (Some ''video/webm; codecs=vp9''))
      \<in> set (effects (combineVideos q pos pc b1 b2 (Some (sd, (vw, vh))) True st s))"
    by (simp add: combineVideos_effects)
next
  show "destination_inputs (effects (sr_combineVideos m ctx st t)) = destination_inputs (effects t)"
    by (cases st)
      (simp add: sr_combineVideos_def Let_def effects_drawFrame split: option.splits prod.splits)
next
  show "destination_inputs (effects (p0_combineVideos m ctx st u)) = destination_inputs (effects u)"
    by (cases st)
      (simp add: p0_combineVideos_def Let_def effects_drawFrame split: option.splits prod.splits)
qed

theorem C8_audio_of_final_recording_witness:
  "destination_inputs (effects (combineVideos Q1080p (5, 80) 17 (Blob [1] ''video/webm'')
       (Blob [2] ''video/webm'') (Some ((1920, 1080), (640, 480))) True (False, False) started)) =
     [MediaElementSource ScreenVideo, MediaElementSource WebcamVideo] \<and>
   destination_inputs (effects sr_compositing) = []"
proof -
  have e: "destination_inputs (effects started) = []"
    "destination_inputs (effects (sr_webcamRecorder_ondataavailable 2
        (sr_screenRecorder_ondataavailable 1 sr_started))) = []"
    by (simp_all add: page_defs sr_defs)
  show ?thesis
    using e
      C8_audio_of_final_recording [where q = Q1080p and pos = "(5, 80)" and pc = 17
        and ?b1.0 = "Blob [1] ''video/webm''" and ?b2.0 = "Blob [2] ''video/webm''"
        and sd = "(1920, 1080)" and vw = 640 and vh = 480 and st = "(False, False)"
        and s = started and m = "Some ((1920, 1080), (640, 480))" and ctx = True
        and t = "sr_webcamRecorder_ondataavailable 2 (sr_screenRecorder_ondataavailable 1 sr_started)"
        and u = p0_initial]
    by (simp add: sr_defs stopTracks_effects)
qed


end
